theory Spec2Isabelle
  imports Main
begin

section \<open>Python values, dictionaries and exceptions\<close>

text \<open>
  The methods of \<open>DocumentUploader\<close> (\<open>document_upload.py\<close>) return Python dictionaries
  with string keys. A dictionary is a finite map from key to value; a value is one of the
  Python objects the code stores in these dictionaries. Strings are ASCII strings.
\<close>

datatype pyval = PNone | PBool bool | PInt int | PStr string

type_synonym py_dict = "string \<rightharpoonup> pyval"

text \<open>
  An exception is kept with the text \<open>str(e)\<close> yields. The code distinguishes
  \<open>botocore.exceptions.ClientError\<close> from every other subclass of \<open>Exception\<close>.
\<close>

datatype exn = ClientError string | OtherException string

fun exn_str :: "exn \<Rightarrow> string" where
  "exn_str (ClientError m) = m"
| "exn_str (OtherException m) = m"

text \<open>\<open>d[k]\<close>: a missing key raises \<open>KeyError\<close>, whose text is the quoted key.\<close>

definition getitem :: "py_dict \<Rightarrow> string \<Rightarrow> exn + pyval" where
  "getitem d k = (case d k of None \<Rightarrow> Inl (OtherException (CHR 0x27 # k @ [CHR 0x27])) | Some v \<Rightarrow> Inr v)"

text \<open>Truth value of an object, as \<open>not x\<close> and \<open>if x\<close> test it.\<close>

fun truthy :: "pyval \<Rightarrow> bool" where
  "truthy PNone = False"
| "truthy (PBool b) = b"
| "truthy (PInt i) = (i \<noteq> 0)"
| "truthy (PStr s) = (s \<noteq> [])"

subsection \<open>String operations of the Python library\<close>

definition digit_char :: "nat \<Rightarrow> char" where
  "digit_char n = ''0123456789'' ! n"

function nat_str :: "nat \<Rightarrow> string" where
  "nat_str n = (if n < 10 then [digit_char n] else nat_str (n div 10) @ [digit_char (n mod 10)])"
  by pat_completeness auto
termination
  by (relation "measure id") auto

definition int_str :: "int \<Rightarrow> string" where
  "int_str i = (if i < 0 then CHR ''-'' # nat_str (nat (- i)) else nat_str (nat i))"

text \<open>\<open>str(x)\<close>, which is also what an f-string field \<open>{x}\<close> inserts.\<close>

fun py_str :: "pyval \<Rightarrow> string" where
  "py_str PNone = ''None''"
| "py_str (PBool b) = (if b then ''True'' else ''False'')"
| "py_str (PInt i) = int_str i"
| "py_str (PStr s) = s"

text \<open>
  \<open>a / b\<close> on integers (\<open>b\<close> not zero) raises \<open>OverflowError\<close> when the quotient,
  rounded to the nearest float, is beyond the largest one: from
  \<open>2 ** 1024 - 2 ** 970\<close> on, in absolute value.
\<close>

definition true_div_overflows :: "int \<Rightarrow> int \<Rightarrow> bool" where
  "true_div_overflows a b = ((2 ^ 1024 - 2 ^ 970) * \<bar>b\<bar> \<le> \<bar>a\<bar>)"

text \<open>\<open>str.lower()\<close> on ASCII text.\<close>

definition lower_char :: "char \<Rightarrow> char" where
  "lower_char c =
     (case map_of (zip ''ABCDEFGHIJKLMNOPQRSTUVWXYZ'' ''abcdefghijklmnopqrstuvwxyz'') c of
        None \<Rightarrow> c
      | Some l \<Rightarrow> l)"

definition lower :: "string \<Rightarrow> string" where
  "lower s = map lower_char s"

text \<open>\<open>s.split(sep)\<close> for a one-character separator: never empty, \<open>''''.split('','')\<close> is \<open>['''']\<close>.\<close>

fun split :: "char \<Rightarrow> string \<Rightarrow> string list" where
  "split sep [] = [[]]"
| "split sep (c # cs) =
     (if c = sep then [] # split sep cs
      else (case split sep cs of [] \<Rightarrow> [[c]] | p # ps \<Rightarrow> (c # p) # ps))"

text \<open>\<open>sep.join(xs)\<close>.\<close>

fun join :: "string \<Rightarrow> string list \<Rightarrow> string" where
  "join sep [] = []"
| "join sep [x] = x"
| "join sep (x # y # ys) = x @ sep @ join sep (y # ys)"

subsection \<open>\<open>pathlib.Path\<close> on a POSIX host\<close>

text \<open>
  \<open>Path(p)\<close> drops empty and \<open>.\<close> components. \<open>name\<close> is the final component (empty when
  there is none); \<open>suffix\<close> is the part of the name from its last dot, when that dot is
  neither the first nor the last character of the name (Python up to 3.13);
  \<open>str(Path(p))\<close> is the normalised text.
\<close>

definition path_parts :: "string \<Rightarrow> string list" where
  "path_parts p = filter (\<lambda>c. c \<noteq> [] \<and> c \<noteq> ''.'') (split CHR ''/'' p)"

definition path_root :: "string \<Rightarrow> string" where
  "path_root p =
     (if take 2 p = ''//'' \<and> take 3 p \<noteq> ''///'' then ''//''
      else if take 1 p = ''/'' then ''/'' else [])"

definition path_name :: "string \<Rightarrow> string" where
  "path_name p = (case path_parts p of [] \<Rightarrow> [] | c # cs \<Rightarrow> last (c # cs))"

definition rfind_dot :: "string \<Rightarrow> nat option" where
  "rfind_dot name =
     (if CHR ''.'' \<in> set name
      then Some (length name - Suc (length (takeWhile (\<lambda>c. c \<noteq> CHR ''.'') (rev name))))
      else None)"

definition path_suffix :: "string \<Rightarrow> string" where
  "path_suffix p =
     (let name = path_name p in
      case rfind_dot name of
        None \<Rightarrow> []
      | Some i \<Rightarrow> if 0 < i \<and> Suc i < length name then drop i name else [])"

definition path_str :: "string \<Rightarrow> string" where
  "path_str p =
     (if path_root p = [] \<and> path_parts p = [] then ''.''
      else path_root p @ join ''/'' (path_parts p))"

section \<open>Configuration (\<open>config.py\<close>)\<close>

text \<open>\<open>os.getenv(name, default)\<close> over the process environment.\<close>

definition getenv :: "(string \<rightharpoonup> string) \<Rightarrow> string \<Rightarrow> string \<Rightarrow> string" where
  "getenv environ name dflt = (case environ name of None \<Rightarrow> dflt | Some v \<Rightarrow> v)"

text \<open>
  The two settings the upload pipeline reads. \<open>MAX_FILE_SIZE\<close> is the integer the
  environment text parses to; \<open>SUPPORTED_EXTENSIONS\<close> is the environment text split at
  commas.
\<close>

record config =
  MAX_FILE_SIZE :: int
  SUPPORTED_EXTENSIONS :: "string list"

definition Config_SUPPORTED_EXTENSIONS :: "(string \<rightharpoonup> string) \<Rightarrow> string list" where
  "Config_SUPPORTED_EXTENSIONS environ =
     split CHR '','' (getenv environ ''SUPPORTED_EXTENSIONS'' ''.pdf,.doc,.docx'')"

text \<open>
  For comparison, the allow-set as the specification words it: the entries of the
  comma-separated value, each normalised to lowercase with a leading separator.
\<close>

definition spec_normalized :: "string \<Rightarrow> string" where
  "spec_normalized e = (let l = lower e in if take 1 l = ''.'' then l else CHR ''.'' # l)"

definition spec_allow_set :: "(string \<rightharpoonup> string) \<Rightarrow> string list" where
  "spec_allow_set environ = map spec_normalized (Config_SUPPORTED_EXTENSIONS environ)"

section \<open>The host: file system, library calls and the two services\<close>

text \<open>
  What \<open>os.stat\<close> finds at a path: nothing (\<open>exists()\<close> is false), an error other than
  "no such entry" (\<open>exists()\<close> and \<open>stat()\<close> raise it), or an entry of some kind with
  its size in bytes.
\<close>

datatype node_kind = RegularFile | Directory

datatype fs_node = NoEntry | StatError string | Entry node_kind nat

datatype s3_outcome = S3Ok | S3ClientError string | S3OtherError string

datatype db_step = Connect | Cursor | Execute | Commit | FetchOne | CursorClose | ConnClose

text \<open>
  Everything the code obtains from outside is a field of the host:
  the file system, \<open>mimetypes.guess_type\<close>, the text of the two float format fields
  \<open>{a / b:.0f}\<close> and \<open>{a / b:.2f}\<close> for a quotient within the range of a float
  (the digits of a float are left to the host),
  the text of the \<open>n\<close>-th \<open>uuid.uuid4()\<close> of the process, \<open>datetime.utcnow()\<close>,
  how \<open>s3_client.upload_file(Filename, Bucket, Key)\<close> ends, and which steps of the
  database session raise.
\<close>

record host =
  fs :: "string \<Rightarrow> fs_node"
  guess_type :: "string \<Rightarrow> string option"
  format_0f :: "int \<Rightarrow> int \<Rightarrow> string"
  format_2f :: "int \<Rightarrow> int \<Rightarrow> string"
  uuid4_str :: "nat \<Rightarrow> string"
  utcnow :: nat
  s3_upload_outcome :: "string \<Rightarrow> string \<Rightarrow> string \<Rightarrow> s3_outcome"
  db_fault :: "db_step \<Rightarrow> string option"

definition path_exists :: "host \<Rightarrow> string \<Rightarrow> exn + bool" where
  "path_exists h p =
     (case fs h (path_str p) of
        NoEntry \<Rightarrow> Inr False
      | StatError m \<Rightarrow> Inl (OtherException m)
      | Entry k n \<Rightarrow> Inr True)"

definition path_stat_size :: "host \<Rightarrow> string \<Rightarrow> exn + int" where
  "path_stat_size h p =
     (case fs h (path_str p) of
        NoEntry \<Rightarrow> Inl (OtherException ''[Errno 2] No such file or directory'')
      | StatError m \<Rightarrow> Inl (OtherException m)
      | Entry k n \<Rightarrow> Inr (int n))"

section \<open>\<open>DocumentUploader\<close>\<close>

text \<open>
  The fields of the object that the pipeline reads. \<open>supported_extensions\<close> is a
  Python set, kept as the list of its elements in the order in which the process iterates
  over it. That order depends on the hash seed of the process, so the constructor's
  \<open>set(config.SUPPORTED_EXTENSIONS)\<close> fixes the elements and not their order.
\<close>

record uploader =
  aws_region :: string
  s3_bucket_name :: string
  db_connection_string :: string
  supported_extensions :: "string list"

text \<open>
  \<open>self.supported_extensions = set(config.SUPPORTED_EXTENSIONS)\<close>: the list holds each
  configured entry once, in some order.
\<close>

definition init_supported_extensions :: "config \<Rightarrow> string list \<Rightarrow> bool" where
  "init_supported_extensions cfg xs = (distinct xs \<and> set xs = set (SUPPORTED_EXTENSIONS cfg))"

subsection \<open>\<open>validate_file\<close>\<close>

definition unsupported_format_error :: "uploader \<Rightarrow> string" where
  "unsupported_format_error self =
     ''Unsupported file format. Supported formats: '' @ join '', '' (supported_extensions self)"

text \<open>
  The f-string of the size error. Each of its two divisions raises \<open>OverflowError\<close>
  when the quotient is beyond the range of a float.
\<close>

definition too_large_text :: "host \<Rightarrow> int \<Rightarrow> int \<Rightarrow> string" where
  "too_large_text h max_size file_size =
     ''File too large. Maximum size: '' @ format_0f h max_size (1024 * 1024)
       @ ''MB, Current size: '' @ format_2f h file_size (1024 * 1024) @ ''MB''"

definition too_large_error :: "host \<Rightarrow> int \<Rightarrow> int \<Rightarrow> exn + string" where
  "too_large_error h max_size file_size =
     (if true_div_overflows max_size (1024 * 1024) \<or> true_div_overflows file_size (1024 * 1024)
      then Inl (OtherException ''integer division result too large for a float'')
      else Inr (too_large_text h max_size file_size))"

definition mime_value :: "string option \<Rightarrow> pyval" where
  "mime_value m = (case m of None \<Rightarrow> PNone | Some t \<Rightarrow> PStr t)"

text \<open>
  The body of the \<open>try\<close> block: \<open>Inl\<close> is an exception raised inside it. The four
  operations of the body that reach outside the object are parameters, each with the
  value it returns or the exception it raises: \<open>file_path.exists()\<close>,
  \<open>file_path.stat().st_size\<close>, the f-string of the size error, and
  \<open>mimetypes.guess_type\<close>.
\<close>

definition validate_file_try_with ::
  "(exn + bool) \<Rightarrow> (exn + int) \<Rightarrow> (int \<Rightarrow> int \<Rightarrow> exn + string) \<Rightarrow> (exn + string option)
     \<Rightarrow> uploader \<Rightarrow> config \<Rightarrow> string \<Rightarrow> exn + py_dict" where
  "validate_file_try_with existing stat_size too_large guessed self cfg file_path =
     (case existing of
        Inl e \<Rightarrow> Inl e
      | Inr ex \<Rightarrow>
          if \<not> ex then
            Inr [''valid'' \<mapsto> PBool False, ''error'' \<mapsto> PStr ''File does not exist'']
          else
            let file_extension = lower (path_suffix file_path) in
            if file_extension \<notin> set (supported_extensions self) then
              Inr [''valid'' \<mapsto> PBool False,
                   ''error'' \<mapsto> PStr (unsupported_format_error self)]
            else
              (case stat_size of
                 Inl e \<Rightarrow> Inl e
               | Inr file_size \<Rightarrow>
                   let max_size = MAX_FILE_SIZE cfg in
                   if file_size > max_size then
                     (case too_large max_size file_size of
                        Inl e \<Rightarrow> Inl e
                      | Inr m \<Rightarrow> Inr [''valid'' \<mapsto> PBool False, ''error'' \<mapsto> PStr m])
                   else
                     (case guessed of
                        Inl e \<Rightarrow> Inl e
                      | Inr mime_type \<Rightarrow>
                          Inr [''valid'' \<mapsto> PBool True,
                               ''file_name'' \<mapsto> PStr (path_name file_path),
                               ''file_extension'' \<mapsto> PStr file_extension,
                               ''file_size'' \<mapsto> PInt file_size,
                               ''mime_type'' \<mapsto> mime_value mime_type,
                               ''file_path'' \<mapsto> PStr (path_str file_path)])))"

text \<open>The method: \<open>except Exception\<close> turns an exception of the body into a dictionary.\<close>

definition validate_file_with ::
  "(exn + bool) \<Rightarrow> (exn + int) \<Rightarrow> (int \<Rightarrow> int \<Rightarrow> exn + string) \<Rightarrow> (exn + string option)
     \<Rightarrow> uploader \<Rightarrow> config \<Rightarrow> string \<Rightarrow> exn + py_dict" where
  "validate_file_with existing stat_size too_large guessed self cfg file_path =
     (case validate_file_try_with existing stat_size too_large guessed self cfg file_path of
        Inl e \<Rightarrow> Inr [''valid'' \<mapsto> PBool False,
                      ''error'' \<mapsto> PStr (''Validation error: '' @ exn_str e)]
      | Inr d \<Rightarrow> Inr d)"

text \<open>The method on a host: the four operations are the host's.\<close>

definition validate_file :: "uploader \<Rightarrow> config \<Rightarrow> host \<Rightarrow> string \<Rightarrow> exn + py_dict" where
  "validate_file self cfg h file_path =
     validate_file_with (path_exists h file_path) (path_stat_size h file_path)
       (too_large_error h) (Inr (guess_type h (path_str file_path))) self cfg file_path"

section \<open>The world the pipeline acts on\<close>

text \<open>
  A row of the \<open>documents\<close> table, one field per column of the \<open>INSERT\<close> statement of
  \<open>save_to_database\<close>, in its order.
\<close>

record document =
  col_document_id :: string
  col_user_id :: string
  col_file_name :: pyval
  col_file_extension :: pyval
  col_file_size :: pyval
  col_mime_type :: pyval
  col_s3_url :: pyval
  col_upload_date :: nat
  col_status :: string

text \<open>
  The calls that reach the two services. \<open>S3DeleteObject\<close> is the object store's delete
  operation; it is part of the service, and the log would show it if the code issued it.
\<close>

datatype call =
    S3UploadFile string string string
  | S3DeleteObject string string
  | DbConnect string
  | DbInsert document
  | DbCommit

text \<open>
  The state: how many UUIDs the process has drawn, the calls made so far (oldest first),
  the objects in the store as (bucket, key, local file), and the committed rows.
\<close>

record world =
  uuid_draws :: nat
  calls :: "call list"
  bucket :: "(string \<times> string \<times> string) list"
  documents :: "document list"

text \<open>
  A statement of the program runs in a world and ends with a value or with an
  exception, in a new world.
\<close>

type_synonym 'a action = "world \<Rightarrow> (exn + 'a) \<times> world"

definition returns :: "'a \<Rightarrow> 'a action" where
  "returns x = (\<lambda>w. (Inr x, w))"

definition lift :: "exn + 'a \<Rightarrow> 'a action" where
  "lift r = (\<lambda>w. (r, w))"

definition then_do :: "'a action \<Rightarrow> ('a \<Rightarrow> 'b action) \<Rightarrow> 'b action" where
  "then_do m f = (\<lambda>w. case m w of (Inl e, w') \<Rightarrow> (Inl e, w') | (Inr x, w') \<Rightarrow> f x w')"

text \<open>\<open>try: m except ... as e: handler e\<close>.\<close>

definition except :: "'a action \<Rightarrow> (exn \<Rightarrow> 'a action) \<Rightarrow> 'a action" where
  "except m handler = (\<lambda>w. case m w of (Inl e, w') \<Rightarrow> handler e w' | (Inr x, w') \<Rightarrow> (Inr x, w'))"

definition log_call :: "call \<Rightarrow> world \<Rightarrow> world" where
  "log_call c w = w\<lparr>calls := calls w @ [c]\<rparr>"

text \<open>\<open>str(uuid.uuid4())\<close>: the next draw of the generator.\<close>

definition uuid4 :: "host \<Rightarrow> string action" where
  "uuid4 h = (\<lambda>w. (Inr (uuid4_str h (uuid_draws w)), w\<lparr>uuid_draws := Suc (uuid_draws w)\<rparr>))"

text \<open>
  \<open>s3_client.upload_file(Filename, Bucket, Key)\<close>: the object is stored when the call
  succeeds; a failure raises \<open>ClientError\<close> or another exception.
\<close>

definition s3_client_upload_file :: "host \<Rightarrow> string \<Rightarrow> string \<Rightarrow> string \<Rightarrow> unit action" where
  "s3_client_upload_file h Filename Bucket Key =
     (\<lambda>w. let w' = log_call (S3UploadFile Filename Bucket Key) w in
        case s3_upload_outcome h Filename Bucket Key of
          S3Ok \<Rightarrow> (Inr (), w'\<lparr>bucket := bucket w' @ [(Bucket, Key, Filename)]\<rparr>)
        | S3ClientError m \<Rightarrow> (Inl (ClientError m), w')
        | S3OtherError m \<Rightarrow> (Inl (OtherException m), w'))"

text \<open>
  The database session, step by step. A step raises when the host says so. The row of
  \<open>cursor.execute\<close> becomes a committed row when \<open>conn.commit()\<close> succeeds, and
  \<open>cursor.fetchone()\<close> yields the \<open>RETURNING document_id\<close> of that row.
\<close>

definition db_do :: "host \<Rightarrow> db_step \<Rightarrow> unit action" where
  "db_do h s =
     (\<lambda>w. case db_fault h s of Some m \<Rightarrow> (Inl (OtherException m), w) | None \<Rightarrow> (Inr (), w))"

definition psycopg2_connect :: "host \<Rightarrow> string \<Rightarrow> unit action" where
  "psycopg2_connect h dsn = (\<lambda>w. db_do h Connect (log_call (DbConnect dsn) w))"

definition cursor_execute :: "host \<Rightarrow> document \<Rightarrow> unit action" where
  "cursor_execute h row = (\<lambda>w. db_do h Execute (log_call (DbInsert row) w))"

definition conn_commit :: "host \<Rightarrow> document \<Rightarrow> unit action" where
  "conn_commit h row =
     (\<lambda>w. case db_do h Commit (log_call DbCommit w) of
        (Inl e, w') \<Rightarrow> (Inl e, w')
      | (Inr u, w') \<Rightarrow> (Inr u, w'\<lparr>documents := documents w' @ [row]\<rparr>))"

definition cursor_fetchone :: "host \<Rightarrow> document \<Rightarrow> py_dict action" where
  "cursor_fetchone h row =
     then_do (db_do h FetchOne) (\<lambda>u. returns [''document_id'' \<mapsto> PStr (col_document_id row)])"

subsection \<open>\<open>upload_to_s3\<close>\<close>

text \<open>The second parameter is the source's \<open>file_name\<close>: the key of the object.\<close>

definition upload_to_s3 :: "uploader \<Rightarrow> host \<Rightarrow> string \<Rightarrow> string \<Rightarrow> py_dict action" where
  "upload_to_s3 self h file_path key =
     except
       (then_do (s3_client_upload_file h file_path (s3_bucket_name self) key) (\<lambda>u.
          let s3_url = ''https://'' @ s3_bucket_name self @ ''.s3.'' @ aws_region self
                         @ ''.amazonaws.com/'' @ key in
          returns [''success'' \<mapsto> PBool True, ''s3_url'' \<mapsto> PStr s3_url, ''s3_key'' \<mapsto> PStr key]))
       (\<lambda>e. case e of
          ClientError m \<Rightarrow>
            returns [''success'' \<mapsto> PBool False, ''error'' \<mapsto> PStr (''S3 upload error: '' @ m)]
        | OtherException m \<Rightarrow>
            returns [''success'' \<mapsto> PBool False, ''error'' \<mapsto> PStr (''Upload error: '' @ m)])"

subsection \<open>\<open>save_to_database\<close>\<close>

definition save_to_database ::
  "uploader \<Rightarrow> host \<Rightarrow> py_dict \<Rightarrow> pyval \<Rightarrow> string \<Rightarrow> py_dict action" where
  "save_to_database self h file_metadata s3_url user_id =
     except
       (then_do (psycopg2_connect h (db_connection_string self)) (\<lambda>u1.
        then_do (db_do h Cursor) (\<lambda>u2.
        then_do (uuid4 h) (\<lambda>document_id.
        then_do (lift (getitem file_metadata ''file_name'')) (\<lambda>fname.
        then_do (lift (getitem file_metadata ''file_extension'')) (\<lambda>fext.
        then_do (lift (getitem file_metadata ''file_size'')) (\<lambda>fsize.
        then_do (lift (getitem file_metadata ''mime_type'')) (\<lambda>mime.
        let row = \<lparr>col_document_id = document_id, col_user_id = user_id,
                   col_file_name = fname, col_file_extension = fext, col_file_size = fsize,
                   col_mime_type = mime, col_s3_url = s3_url, col_upload_date = utcnow h,
                   col_status = ''uploaded''\<rparr> in
        then_do (cursor_execute h row) (\<lambda>u3.
        then_do (conn_commit h row) (\<lambda>u4.
        then_do (cursor_fetchone h row) (\<lambda>result.
        then_do (db_do h CursorClose) (\<lambda>u5.
        then_do (db_do h ConnClose) (\<lambda>u6.
        then_do (lift (getitem result ''document_id'')) (\<lambda>rid.
        returns [''success'' \<mapsto> PBool True, ''document_id'' \<mapsto> rid,
                 ''message'' \<mapsto> PStr ''Document metadata saved successfully'']))))))))))))))
       (\<lambda>e. returns [''success'' \<mapsto> PBool False,
                      ''error'' \<mapsto> PStr (''Database error: '' @ exn_str e)])"

subsection \<open>\<open>upload_document\<close>\<close>

text \<open>
  The body of the \<open>try\<close> block, step by step as the source numbers them. The four steps
  it calls are parameters: \<open>self.validate_file(file_path)\<close>, \<open>str(uuid.uuid4())\<close>,
  \<open>self.upload_to_s3(file_path, unique_name)\<close> as a function of the name, and
  \<open>self.save_to_database(validation_result, s3_url, user_id)\<close> as a function of its
  first two arguments. Each may return any dictionary or raise any exception.
\<close>

definition upload_document_try_with ::
  "py_dict action \<Rightarrow> string action \<Rightarrow> (string \<Rightarrow> py_dict action)
     \<Rightarrow> (py_dict \<Rightarrow> pyval \<Rightarrow> py_dict action) \<Rightarrow> py_dict action" where
  "upload_document_try_with validate new_uuid upload save =
     then_do validate (\<lambda>validation_result.
     then_do (lift (getitem validation_result ''valid'')) (\<lambda>valid.
     if \<not> truthy valid then
       then_do (lift (getitem validation_result ''error'')) (\<lambda>err.
       returns [''success'' \<mapsto> PBool False, ''error'' \<mapsto> err])
     else
       then_do (lift (getitem validation_result ''file_extension'')) (\<lambda>file_extension.
       then_do new_uuid (\<lambda>u.
       let unique_name = u @ py_str file_extension in
       then_do (upload unique_name) (\<lambda>upload_result.
       then_do (lift (getitem upload_result ''success'')) (\<lambda>uploaded.
       if \<not> truthy uploaded then
         then_do (lift (getitem upload_result ''error'')) (\<lambda>err.
         returns [''success'' \<mapsto> PBool False, ''error'' \<mapsto> err])
       else
         then_do (lift (getitem upload_result ''s3_url'')) (\<lambda>s3_url.
         then_do (save validation_result s3_url) (\<lambda>db_result.
         then_do (lift (getitem db_result ''success'')) (\<lambda>saved.
         if \<not> truthy saved then
           then_do (lift (getitem db_result ''error'')) (\<lambda>err.
           returns [''success'' \<mapsto> PBool False, ''error'' \<mapsto> err])
         else
           then_do (lift (getitem db_result ''document_id'')) (\<lambda>did.
           then_do (lift (getitem validation_result ''file_name'')) (\<lambda>fname.
           then_do (lift (getitem upload_result ''s3_url'')) (\<lambda>url.
           returns [''success'' \<mapsto> PBool True, ''document_id'' \<mapsto> did,
                    ''file_name'' \<mapsto> fname, ''s3_url'' \<mapsto> url,
                    ''message'' \<mapsto> PStr ''Document uploaded successfully'']))))))))))))"

text \<open>The method: the body under its \<open>except Exception\<close>.\<close>

definition upload_document_with ::
  "py_dict action \<Rightarrow> string action \<Rightarrow> (string \<Rightarrow> py_dict action)
     \<Rightarrow> (py_dict \<Rightarrow> pyval \<Rightarrow> py_dict action) \<Rightarrow> py_dict action" where
  "upload_document_with validate new_uuid upload save =
     except (upload_document_try_with validate new_uuid upload save)
       (\<lambda>e. returns [''success'' \<mapsto> PBool False,
                      ''error'' \<mapsto> PStr (''Upload failed: '' @ exn_str e)])"

text \<open>The method of an uploader on a host: the four steps are its own methods.\<close>

definition upload_document ::
  "uploader \<Rightarrow> config \<Rightarrow> host \<Rightarrow> string \<Rightarrow> string \<Rightarrow> py_dict action" where
  "upload_document self cfg h file_path user_id =
     upload_document_with (lift (validate_file self cfg h file_path)) (uuid4 h)
       (upload_to_s3 self h file_path)
       (\<lambda>file_metadata s3_url. save_to_database self h file_metadata s3_url user_id)"

section \<open>Reading a run\<close>

text \<open>The calls of a log that upload an object, delete an object, or reach the database.\<close>

fun is_upload_call :: "call \<Rightarrow> bool" where
  "is_upload_call (S3UploadFile f b k) = True"
| "is_upload_call c = False"

fun is_delete_call :: "call \<Rightarrow> bool" where
  "is_delete_call (S3DeleteObject b k) = True"
| "is_delete_call c = False"

fun is_db_call :: "call \<Rightarrow> bool" where
  "is_db_call (DbConnect dsn) = True"
| "is_db_call (DbInsert row) = True"
| "is_db_call DbCommit = True"
| "is_db_call c = False"

text \<open>The keys of the upload calls of a log, in order.\<close>

fun upload_keys :: "call list \<Rightarrow> string list" where
  "upload_keys [] = []"
| "upload_keys (S3UploadFile f b k # cs) = k # upload_keys cs"
| "upload_keys (c # cs) = upload_keys cs"

text \<open>
  The first step of the database session that raises, in the order in which
  \<open>save_to_database\<close> takes the steps, with the text of its exception.
\<close>

fun first_fault :: "host \<Rightarrow> db_step list \<Rightarrow> string option" where
  "first_fault h [] = None"
| "first_fault h (s # ss) = (case db_fault h s of Some m \<Rightarrow> Some m | None \<Rightarrow> first_fault h ss)"

definition db_first_fault :: "host \<Rightarrow> string option" where
  "db_first_fault h =
     first_fault h [Connect, Cursor, Execute, Commit, FetchOne, CursorClose, ConnClose]"

text \<open>The dictionary \<open>validate_file\<close> returns for a file it accepts, and the URL of an object.\<close>

abbreviation descriptor :: "host \<Rightarrow> string \<Rightarrow> nat \<Rightarrow> py_dict" where
  "descriptor h p n \<equiv>
     [''valid'' \<mapsto> PBool True,
      ''file_name'' \<mapsto> PStr (path_name p),
      ''file_extension'' \<mapsto> PStr (lower (path_suffix p)),
      ''file_size'' \<mapsto> PInt (int n),
      ''mime_type'' \<mapsto> mime_value (guess_type h (path_str p)),
      ''file_path'' \<mapsto> PStr (path_str p)]"

abbreviation object_url :: "uploader \<Rightarrow> string \<Rightarrow> string" where
  "object_url self key \<equiv>
     ''https://'' @ s3_bucket_name self @ ''.s3.'' @ aws_region self @ ''.amazonaws.com/'' @ key"

abbreviation failure :: "string \<Rightarrow> py_dict" where
  "failure m \<equiv> [''success'' \<mapsto> PBool False, ''error'' \<mapsto> PStr m]"

text \<open>The row \<open>save_to_database\<close> inserts for an accepted file.\<close>

abbreviation inserted_row :: "host \<Rightarrow> string \<Rightarrow> nat \<Rightarrow> string \<Rightarrow> pyval \<Rightarrow> string \<Rightarrow> document" where
  "inserted_row h p n did url uid \<equiv>
     \<lparr>col_document_id = did, col_user_id = uid,
      col_file_name = PStr (path_name p),
      col_file_extension = PStr (lower (path_suffix p)),
      col_file_size = PInt (int n),
      col_mime_type = mime_value (guess_type h (path_str p)),
      col_s3_url = url, col_upload_date = utcnow h, col_status = ''uploaded''\<rparr>"

section \<open>A sample installation\<close>

text \<open>
  The default configuration (\<open>.pdf,.doc,.docx\<close>, 50 MB) and a host with a few entries:
  a 1,024-byte \<open>syllabus.pdf\<close>, a directory named \<open>lectures.pdf\<close>, a file of exactly
  the maximum size, one a byte larger, a text file and a 60 MB text file. The store
  accepts every regular file and the database never fails; the variants below change one
  service each. The uploader's set of extensions iterates in the order of the
  configuration, one of the orders a process can have.
\<close>

definition sample_fs :: "string \<Rightarrow> fs_node" where
  "sample_fs p =
     (if p = ''syllabus.pdf'' then Entry RegularFile 1024
      else if p = ''lectures.pdf'' then Entry Directory 4096
      else if p = ''exact.pdf'' then Entry RegularFile 52428800
      else if p = ''big.pdf'' then Entry RegularFile 52428801
      else if p = ''notes.txt'' then Entry RegularFile 10
      else if p = ''scan.txt'' then Entry RegularFile 62914560
      else NoEntry)"

definition sample_guess_type :: "string \<Rightarrow> string option" where
  "sample_guess_type p = (if p = ''notes.txt'' then Some ''text/plain'' else Some ''application/pdf'')"

definition sample_format :: "int \<Rightarrow> int \<Rightarrow> string" where
  "sample_format a b = (if a = 52428800 then ''50'' else ''50.00'')"

definition sample_uuid4_str :: "nat \<Rightarrow> string" where
  "sample_uuid4_str n =
     (if n = 0 then ''3f2b8c1e-5d4a-4e6f-9a7b-0c1d2e3f4a5b''
      else ''7a9d0e2c-1b3f-4c8d-8e6a-5f4b3c2d1e0f'')"

definition sample_s3_ok :: "string \<Rightarrow> string \<Rightarrow> string \<Rightarrow> s3_outcome" where
  "sample_s3_ok f b k =
     (case sample_fs f of
        Entry RegularFile n \<Rightarrow> S3Ok
      | Entry Directory n \<Rightarrow> S3OtherError ''[Errno 21] Is a directory''
      | StatError m \<Rightarrow> S3OtherError m
      | NoEntry \<Rightarrow> S3OtherError ''[Errno 2] No such file or directory'')"

definition sample_s3_denied :: "string \<Rightarrow> string \<Rightarrow> string \<Rightarrow> s3_outcome" where
  "sample_s3_denied f b k = S3ClientError ''AccessDenied''"

definition sample_db_ok :: "db_step \<Rightarrow> string option" where
  "sample_db_ok s = None"

definition sample_db_refused :: "db_step \<Rightarrow> string option" where
  "sample_db_refused s = (if s = Connect then Some ''connection refused'' else None)"

definition sample_host :: host where
  "sample_host =
     \<lparr>fs = sample_fs, guess_type = sample_guess_type, format_0f = sample_format,
      format_2f = sample_format, uuid4_str = sample_uuid4_str, utcnow = 1700000000,
      s3_upload_outcome = sample_s3_ok, db_fault = sample_db_ok\<rparr>"

definition store_down_host :: host where
  "store_down_host = sample_host\<lparr>s3_upload_outcome := sample_s3_denied\<rparr>"

definition db_down_host :: host where
  "db_down_host = sample_host\<lparr>db_fault := sample_db_refused\<rparr>"

definition sample_environ :: "string \<rightharpoonup> string" where
  "sample_environ = Map.empty"

definition sample_config :: config where
  "sample_config =
     \<lparr>MAX_FILE_SIZE = 52428800,
      SUPPORTED_EXTENSIONS = Config_SUPPORTED_EXTENSIONS sample_environ\<rparr>"

definition sample_uploader :: uploader where
  "sample_uploader =
     \<lparr>aws_region = ''us-east-1'', s3_bucket_name = ''syllabus-documents'',
      db_connection_string = ''postgresql://app:secret@db:5432/docs?sslmode=require'',
      supported_extensions = [''.pdf'', ''.doc'', ''.docx'']\<rparr>"

text \<open>An installation whose allow-set is written in upper case and without a separator.\<close>

definition upper_environ :: "string \<rightharpoonup> string" where
  "upper_environ = [''SUPPORTED_EXTENSIONS'' \<mapsto> ''.PDF,doc'']"

definition upper_config :: config where
  "upper_config =
     \<lparr>MAX_FILE_SIZE = 52428800,
      SUPPORTED_EXTENSIONS = Config_SUPPORTED_EXTENSIONS upper_environ\<rparr>"

definition upper_uploader :: uploader where
  "upper_uploader =
     sample_uploader\<lparr>supported_extensions := [''.PDF'', ''doc'']\<rparr>"

text \<open>A configuration whose maximum is below every size and beyond the range of a float.\<close>

definition abyss_config :: config where
  "abyss_config = sample_config\<lparr>MAX_FILE_SIZE := - (2 ^ 1044)\<rparr>"

definition sample_world :: world where
  "sample_world = \<lparr>uuid_draws = 0, calls = [], bucket = [], documents = []\<rparr>"

section \<open>What each method returns\<close>

subsection \<open>\<open>validate_file\<close>\<close>

text \<open>
  \<open>validate_file\<close> returns one of two dictionaries: a rejection, \<open>valid = False\<close> with
  a non-empty error text, or the descriptor of an existing entry whose suffix is allowed
  and whose size is within the maximum.
\<close>

lemma validate_file_cases:
  obtains (rejected) m where "m \<noteq> []"
      and "validate_file self cfg h p = Inr [''valid'' \<mapsto> PBool False, ''error'' \<mapsto> PStr m]"
  | (accepted) k n where "fs h (path_str p) = Entry k n"
      and "lower (path_suffix p) \<in> set (supported_extensions self)"
      and "int n \<le> MAX_FILE_SIZE cfg"
      and "validate_file self cfg h p =
             Inr [''valid'' \<mapsto> PBool True,
                  ''file_name'' \<mapsto> PStr (path_name p),
                  ''file_extension'' \<mapsto> PStr (lower (path_suffix p)),
                  ''file_size'' \<mapsto> PInt (int n),
                  ''mime_type'' \<mapsto> mime_value (guess_type h (path_str p)),
                  ''file_path'' \<mapsto> PStr (path_str p)]"
proof (cases "fs h (path_str p)")
  case NoEntry
  then have "validate_file self cfg h p =
      Inr [''valid'' \<mapsto> PBool False, ''error'' \<mapsto> PStr ''File does not exist'']"
    by (simp add: validate_file_def validate_file_with_def validate_file_try_with_def path_exists_def)
  then show thesis by (rule rejected [rotated]) simp
next
  case (StatError e)
  then have "validate_file self cfg h p =
      Inr [''valid'' \<mapsto> PBool False, ''error'' \<mapsto> PStr (''Validation error: '' @ e)]"
    by (simp add: validate_file_def validate_file_with_def validate_file_try_with_def path_exists_def)
  then show thesis by (rule rejected [rotated]) simp
next
  case (Entry k n)
  show thesis
  proof (cases "lower (path_suffix p) \<in> set (supported_extensions self)")
    case False
    with Entry have "validate_file self cfg h p =
        Inr [''valid'' \<mapsto> PBool False, ''error'' \<mapsto> PStr (unsupported_format_error self)]"
      by (simp add: validate_file_def validate_file_with_def validate_file_try_with_def path_exists_def)
    then show thesis
      by (rule rejected [rotated]) (simp add: unsupported_format_error_def)
  next
    case True
    show thesis
    proof (cases "int n \<le> MAX_FILE_SIZE cfg")
      case False
      show thesis
      proof (cases "too_large_error h (MAX_FILE_SIZE cfg) (int n)")
        case (Inl e)
        with Entry True False have "validate_file self cfg h p =
            Inr [''valid'' \<mapsto> PBool False,
                 ''error'' \<mapsto> PStr (''Validation error: '' @ exn_str e)]"
          by (simp add: validate_file_def validate_file_with_def validate_file_try_with_def
              path_exists_def path_stat_size_def)
        then show thesis by (rule rejected [rotated]) simp
      next
        case (Inr m)
        then have "m = too_large_text h (MAX_FILE_SIZE cfg) (int n)"
          by (simp add: too_large_error_def split: if_splits)
        then have "m \<noteq> []" by (simp add: too_large_text_def)
        moreover from Entry True False Inr have "validate_file self cfg h p =
            Inr [''valid'' \<mapsto> PBool False, ''error'' \<mapsto> PStr m]"
          by (simp add: validate_file_def validate_file_with_def validate_file_try_with_def
              path_exists_def path_stat_size_def)
        ultimately show thesis by (rule rejected)
      qed
    next
      case le: True
      with Entry True have "validate_file self cfg h p =
             Inr [''valid'' \<mapsto> PBool True,
                  ''file_name'' \<mapsto> PStr (path_name p),
                  ''file_extension'' \<mapsto> PStr (lower (path_suffix p)),
                  ''file_size'' \<mapsto> PInt (int n),
                  ''mime_type'' \<mapsto> mime_value (guess_type h (path_str p)),
                  ''file_path'' \<mapsto> PStr (path_str p)]"
        by (simp add: validate_file_def validate_file_with_def validate_file_try_with_def path_exists_def path_stat_size_def)
      with Entry True le show thesis by (rule accepted)
    qed
  qed
qed

lemma validate_file_missing:
  assumes "fs h (path_str p) = NoEntry"
  shows "validate_file self cfg h p =
     Inr [''valid'' \<mapsto> PBool False, ''error'' \<mapsto> PStr ''File does not exist'']"
  using assms by (simp add: validate_file_def validate_file_with_def validate_file_try_with_def path_exists_def)

lemma rejected_is_no_descriptor:
  "[''valid'' \<mapsto> PBool False, ''error'' \<mapsto> PStr m] \<noteq> descriptor h p n"
proof
  assume "[''valid'' \<mapsto> PBool False, ''error'' \<mapsto> PStr m] = descriptor h p n"
  then have "[''valid'' \<mapsto> PBool False, ''error'' \<mapsto> PStr m] ''valid'' = descriptor h p n ''valid''"
    by (rule arg_cong)
  then show False by simp
qed

lemma accepted_descriptor:
  assumes "validate_file self cfg h p = Inr v" and "v ''valid'' = Some (PBool True)"
  obtains k n where "fs h (path_str p) = Entry k n" and "v = descriptor h p n"
proof (cases rule: validate_file_cases [of self cfg h p])
  case (rejected m)
  with assms(1) have "v = [''valid'' \<mapsto> PBool False, ''error'' \<mapsto> PStr m]" by simp
  then have "v ''valid'' = Some (PBool False)" by simp
  with assms(2) show thesis by simp
next
  case (accepted k n)
  with assms(1) have "v = descriptor h p n" by simp
  with accepted(1) show thesis by (rule that)
qed

lemma error_texts_differ:
  "m \<noteq> m' \<Longrightarrow> [''valid'' \<mapsto> PBool False, ''error'' \<mapsto> PStr m] \<noteq>
     [''valid'' \<mapsto> PBool False, ''error'' \<mapsto> PStr m']"
proof
  assume "m \<noteq> m'"
    and "[''valid'' \<mapsto> PBool False, ''error'' \<mapsto> PStr m] =
      [''valid'' \<mapsto> PBool False, ''error'' \<mapsto> PStr m']"
  from this(2) have "[''valid'' \<mapsto> PBool False, ''error'' \<mapsto> PStr m] ''error'' =
      [''valid'' \<mapsto> PBool False, ''error'' \<mapsto> PStr m'] ''error''"
    by (rule arg_cong)
  with \<open>m \<noteq> m'\<close> show False by simp
qed

lemma allowed_is_not_unsupported:
  assumes "fs h (path_str p) = Entry k n"
    and "lower (path_suffix p) \<in> set (supported_extensions self)"
  shows "validate_file self cfg h p \<noteq>
      Inr [''valid'' \<mapsto> PBool False, ''error'' \<mapsto> PStr (unsupported_format_error self)]"
proof (cases "MAX_FILE_SIZE cfg < int n")
  case False
  with assms have "validate_file self cfg h p = Inr (descriptor h p n)"
    by (simp add: validate_file_def validate_file_with_def validate_file_try_with_def
        path_exists_def path_stat_size_def)
  moreover have "descriptor h p n \<noteq>
      [''valid'' \<mapsto> PBool False, ''error'' \<mapsto> PStr (unsupported_format_error self)]"
    using rejected_is_no_descriptor [where m = "unsupported_format_error self"] by metis
  ultimately show ?thesis by simp
next
  case True
  show ?thesis
  proof (cases "too_large_error h (MAX_FILE_SIZE cfg) (int n)")
    case (Inl e)
    with assms True have "validate_file self cfg h p =
        Inr [''valid'' \<mapsto> PBool False, ''error'' \<mapsto> PStr (''Validation error: '' @ exn_str e)]"
      by (simp add: validate_file_def validate_file_with_def validate_file_try_with_def
          path_exists_def path_stat_size_def)
    moreover have "''Validation error: '' @ exn_str e \<noteq> unsupported_format_error self"
      by (simp add: unsupported_format_error_def)
    ultimately show ?thesis by (simp add: error_texts_differ)
  next
    case (Inr m)
    then have "m = too_large_text h (MAX_FILE_SIZE cfg) (int n)"
      by (simp add: too_large_error_def split: if_splits)
    then have "m \<noteq> unsupported_format_error self"
      by (simp add: too_large_text_def unsupported_format_error_def)
    moreover from assms True Inr have "validate_file self cfg h p =
        Inr [''valid'' \<mapsto> PBool False, ''error'' \<mapsto> PStr m]"
      by (simp add: validate_file_def validate_file_with_def validate_file_try_with_def
          path_exists_def path_stat_size_def)
    ultimately show ?thesis by (simp add: error_texts_differ)
  qed
qed

subsection \<open>\<open>upload_to_s3\<close> and \<open>save_to_database\<close>\<close>

text \<open>
  \<open>upload_to_s3\<close> succeeds exactly when the store does. \<open>save_to_database\<close>, given
  the descriptor of an accepted file, succeeds when no step of the session raises, and
  otherwise reports the first step that raises; it only ever adds database calls.
\<close>

lemma upload_to_s3_ok:
  assumes "s3_upload_outcome h p (s3_bucket_name self) key = S3Ok"
  shows "upload_to_s3 self h p key w =
    (Inr [''success'' \<mapsto> PBool True, ''s3_url'' \<mapsto> PStr (object_url self key), ''s3_key'' \<mapsto> PStr key],
     w\<lparr>calls := calls w @ [S3UploadFile p (s3_bucket_name self) key],
       bucket := bucket w @ [(s3_bucket_name self, key, p)]\<rparr>)"
  using assms
  by (simp add: upload_to_s3_def except_def then_do_def s3_client_upload_file_def
      log_call_def returns_def)

lemma upload_to_s3_client_error:
  assumes "s3_upload_outcome h p (s3_bucket_name self) key = S3ClientError e"
  shows "upload_to_s3 self h p key w =
    (Inr (failure (''S3 upload error: '' @ e)),
     w\<lparr>calls := calls w @ [S3UploadFile p (s3_bucket_name self) key]\<rparr>)"
  using assms
  by (simp add: upload_to_s3_def except_def then_do_def s3_client_upload_file_def
      log_call_def returns_def)

lemma upload_to_s3_other_error:
  assumes "s3_upload_outcome h p (s3_bucket_name self) key = S3OtherError e"
  shows "upload_to_s3 self h p key w =
    (Inr (failure (''Upload error: '' @ e)),
     w\<lparr>calls := calls w @ [S3UploadFile p (s3_bucket_name self) key]\<rparr>)"
  using assms
  by (simp add: upload_to_s3_def except_def then_do_def s3_client_upload_file_def
      log_call_def returns_def)

lemma save_to_database_ok:
  assumes "db_first_fault h = None"
  shows "save_to_database self h (descriptor h p n) url uid w =
    (Inr [''success'' \<mapsto> PBool True, ''document_id'' \<mapsto> PStr (uuid4_str h (uuid_draws w)),
          ''message'' \<mapsto> PStr ''Document metadata saved successfully''],
     w\<lparr>uuid_draws := Suc (uuid_draws w),
       calls := calls w @ [DbConnect (db_connection_string self),
                           DbInsert (inserted_row h p n (uuid4_str h (uuid_draws w)) url uid),
                           DbCommit],
       documents := documents w @ [inserted_row h p n (uuid4_str h (uuid_draws w)) url uid]\<rparr>)"
  using assms
  by (simp add: db_first_fault_def save_to_database_def except_def then_do_def returns_def
      lift_def getitem_def psycopg2_connect_def db_do_def uuid4_def cursor_execute_def
      conn_commit_def cursor_fetchone_def log_call_def Let_def split: option.splits)

lemma save_to_database_failed:
  assumes "db_first_fault h = Some m"
  shows "\<exists>w' cs. save_to_database self h (descriptor h p n) url uid w =
      (Inr (failure (''Database error: '' @ m)), w')
    \<and> calls w' = calls w @ cs \<and> (\<forall>c \<in> set cs. is_db_call c) \<and> bucket w' = bucket w"
  using assms
  by (auto simp add: db_first_fault_def save_to_database_def except_def then_do_def returns_def
      lift_def getitem_def psycopg2_connect_def db_do_def uuid4_def cursor_execute_def
      conn_commit_def cursor_fetchone_def log_call_def Let_def split: option.splits)

subsection \<open>\<open>upload_document\<close>, path by path\<close>

text \<open>
  The four ways through \<open>upload_document\<close>: rejected by validation, refused by the
  store, failed in the database, saved.
\<close>

lemmas run_defs = upload_document_def upload_document_with_def upload_document_try_with_def
  except_def then_do_def
  lift_def returns_def getitem_def uuid4_def Let_def

lemma upload_document_rejected:
  assumes "validate_file self cfg h p = Inr [''valid'' \<mapsto> PBool False, ''error'' \<mapsto> PStr m]"
  shows "upload_document self cfg h p uid w = (Inr (failure m), w)"
  using assms by (simp add: run_defs)

lemma upload_document_client_error:
  assumes "validate_file self cfg h p = Inr (descriptor h p n)"
    and "s3_upload_outcome h p (s3_bucket_name self)
           (uuid4_str h (uuid_draws w) @ lower (path_suffix p)) = S3ClientError e"
  shows "upload_document self cfg h p uid w =
    (Inr (failure (''S3 upload error: '' @ e)),
     w\<lparr>uuid_draws := Suc (uuid_draws w),
       calls := calls w @ [S3UploadFile p (s3_bucket_name self)
                             (uuid4_str h (uuid_draws w) @ lower (path_suffix p))]\<rparr>)"
  using assms(1) by (simp add: run_defs upload_to_s3_client_error [OF assms(2)])

lemma upload_document_other_error:
  assumes "validate_file self cfg h p = Inr (descriptor h p n)"
    and "s3_upload_outcome h p (s3_bucket_name self)
           (uuid4_str h (uuid_draws w) @ lower (path_suffix p)) = S3OtherError e"
  shows "upload_document self cfg h p uid w =
    (Inr (failure (''Upload error: '' @ e)),
     w\<lparr>uuid_draws := Suc (uuid_draws w),
       calls := calls w @ [S3UploadFile p (s3_bucket_name self)
                             (uuid4_str h (uuid_draws w) @ lower (path_suffix p))]\<rparr>)"
  using assms(1) by (simp add: run_defs upload_to_s3_other_error [OF assms(2)])

lemma upload_document_stored:
  assumes "validate_file self cfg h p = Inr (descriptor h p n)"
    and "s3_upload_outcome h p (s3_bucket_name self)
           (uuid4_str h (uuid_draws w) @ lower (path_suffix p)) = S3Ok"
  shows "upload_document self cfg h p uid w =
    (case save_to_database self h (descriptor h p n)
            (PStr (object_url self (uuid4_str h (uuid_draws w) @ lower (path_suffix p)))) uid
            (w\<lparr>uuid_draws := Suc (uuid_draws w),
               calls := calls w @ [S3UploadFile p (s3_bucket_name self)
                             (uuid4_str h (uuid_draws w) @ lower (path_suffix p))],
               bucket := bucket w @ [(s3_bucket_name self,
                             uuid4_str h (uuid_draws w) @ lower (path_suffix p), p)]\<rparr>) of
       (Inl e, w') \<Rightarrow> (Inr (failure (''Upload failed: '' @ exn_str e)), w')
     | (Inr d, w') \<Rightarrow>
         (case d ''success'' of
            None \<Rightarrow> (Inr (failure (''Upload failed: '' @ CHR 0x27 # ''success'' @ [CHR 0x27])), w')
          | Some saved \<Rightarrow>
              if \<not> truthy saved then
                (case d ''error'' of
                   None \<Rightarrow> (Inr (failure (''Upload failed: '' @ CHR 0x27 # ''error'' @ [CHR 0x27])), w')
                 | Some err \<Rightarrow> (Inr [''success'' \<mapsto> PBool False, ''error'' \<mapsto> err], w'))
              else
                (case d ''document_id'' of
                   None \<Rightarrow> (Inr (failure (''Upload failed: '' @ CHR 0x27 # ''document_id'' @ [CHR 0x27])), w')
                 | Some did \<Rightarrow>
                     (Inr [''success'' \<mapsto> PBool True, ''document_id'' \<mapsto> did,
                           ''file_name'' \<mapsto> PStr (path_name p),
                           ''s3_url'' \<mapsto> PStr (object_url self
                               (uuid4_str h (uuid_draws w) @ lower (path_suffix p))),
                           ''message'' \<mapsto> PStr ''Document uploaded successfully''], w'))))"
  using assms(1)
  by (simp add: run_defs upload_to_s3_ok [OF assms(2)] split: prod.splits sum.splits option.splits)

lemma upload_document_saved:
  assumes "validate_file self cfg h p = Inr (descriptor h p n)"
    and "s3_upload_outcome h p (s3_bucket_name self)
           (uuid4_str h (uuid_draws w) @ lower (path_suffix p)) = S3Ok"
    and "db_first_fault h = None"
  shows "upload_document self cfg h p uid w =
    (Inr [''success'' \<mapsto> PBool True,
          ''document_id'' \<mapsto> PStr (uuid4_str h (Suc (uuid_draws w))),
          ''file_name'' \<mapsto> PStr (path_name p),
          ''s3_url'' \<mapsto> PStr (object_url self
                          (uuid4_str h (uuid_draws w) @ lower (path_suffix p))),
          ''message'' \<mapsto> PStr ''Document uploaded successfully''],
     w\<lparr>uuid_draws := Suc (Suc (uuid_draws w)),
       calls := calls w @
         [S3UploadFile p (s3_bucket_name self)
            (uuid4_str h (uuid_draws w) @ lower (path_suffix p)),
          DbConnect (db_connection_string self),
          DbInsert (inserted_row h p n (uuid4_str h (Suc (uuid_draws w)))
            (PStr (object_url self (uuid4_str h (uuid_draws w) @ lower (path_suffix p)))) uid),
          DbCommit],
       bucket := bucket w @ [(s3_bucket_name self,
                              uuid4_str h (uuid_draws w) @ lower (path_suffix p), p)],
       documents := documents w @
         [inserted_row h p n (uuid4_str h (Suc (uuid_draws w)))
            (PStr (object_url self (uuid4_str h (uuid_draws w) @ lower (path_suffix p)))) uid]\<rparr>)"
  by (simp add: upload_document_stored [OF assms(1,2)] save_to_database_ok [OF assms(3)])

lemma upload_document_db_failed:
  assumes "validate_file self cfg h p = Inr (descriptor h p n)"
    and "s3_upload_outcome h p (s3_bucket_name self)
           (uuid4_str h (uuid_draws w) @ lower (path_suffix p)) = S3Ok"
    and "db_first_fault h = Some m"
  shows "\<exists>w' cs. upload_document self cfg h p uid w =
        (Inr (failure (''Database error: '' @ m)), w')
      \<and> calls w' = calls w @ S3UploadFile p (s3_bucket_name self)
            (uuid4_str h (uuid_draws w) @ lower (path_suffix p)) # cs
      \<and> (\<forall>c \<in> set cs. is_db_call c)
      \<and> bucket w' = bucket w @ [(s3_bucket_name self,
                              uuid4_str h (uuid_draws w) @ lower (path_suffix p), p)]"
proof -
  let ?key = "uuid4_str h (uuid_draws w) @ lower (path_suffix p)"
  let ?w2 = "w\<lparr>uuid_draws := Suc (uuid_draws w),
               calls := calls w @ [S3UploadFile p (s3_bucket_name self) ?key],
               bucket := bucket w @ [(s3_bucket_name self, ?key, p)]\<rparr>"
  from save_to_database_failed [OF assms(3), of self p n "PStr (object_url self ?key)" uid ?w2]
  obtain w' cs where s: "save_to_database self h (descriptor h p n)
        (PStr (object_url self ?key)) uid ?w2 = (Inr (failure (''Database error: '' @ m)), w')"
    and c: "calls w' = calls ?w2 @ cs" and d: "\<forall>c \<in> set cs. is_db_call c"
    and b: "bucket w' = bucket ?w2"
    by blast
  have "upload_document self cfg h p uid w = (Inr (failure (''Database error: '' @ m)), w')"
    unfolding upload_document_stored [OF assms(1,2)] s by simp
  with c d b show ?thesis by simp
qed

lemma upload_keys_append: "upload_keys (xs @ ys) = upload_keys xs @ upload_keys ys"
  by (induction xs rule: upload_keys.induct) simp_all

lemma upload_keys_db_calls: "\<forall>c \<in> set cs. is_db_call c \<Longrightarrow> upload_keys cs = []"
  by (induction cs rule: upload_keys.induct) simp_all

lemma filter_delete_db_calls: "\<forall>c \<in> set cs. is_db_call c \<Longrightarrow> filter is_delete_call cs = []"
  by (induction cs) (auto elim: is_db_call.elims)

text \<open>Every run of \<open>upload_document\<close> is one of four.\<close>

lemma upload_document_cases:
  obtains (rejected) m where "m \<noteq> []"
      and "validate_file self cfg h p = Inr [''valid'' \<mapsto> PBool False, ''error'' \<mapsto> PStr m]"
      and "upload_document self cfg h p uid w = (Inr (failure m), w)"
  | (storage_failed) n m where "m \<noteq> []"
      and "validate_file self cfg h p = Inr (descriptor h p n)"
      and "s3_upload_outcome h p (s3_bucket_name self)
             (uuid4_str h (uuid_draws w) @ lower (path_suffix p)) \<noteq> S3Ok"
      and "upload_document self cfg h p uid w =
             (Inr (failure m),
              w\<lparr>uuid_draws := Suc (uuid_draws w),
                calls := calls w @ [S3UploadFile p (s3_bucket_name self)
                             (uuid4_str h (uuid_draws w) @ lower (path_suffix p))]\<rparr>)"
  | (db_failed) n m w' cs where
          "validate_file self cfg h p = Inr (descriptor h p n)"
      and "s3_upload_outcome h p (s3_bucket_name self)
             (uuid4_str h (uuid_draws w) @ lower (path_suffix p)) = S3Ok"
      and "db_first_fault h = Some m"
      and "upload_document self cfg h p uid w = (Inr (failure (''Database error: '' @ m)), w')"
      and "calls w' = calls w @ S3UploadFile p (s3_bucket_name self)
            (uuid4_str h (uuid_draws w) @ lower (path_suffix p)) # cs"
      and "\<forall>c \<in> set cs. is_db_call c"
      and "bucket w' = bucket w @ [(s3_bucket_name self,
                              uuid4_str h (uuid_draws w) @ lower (path_suffix p), p)]"
  | (saved) n where
          "validate_file self cfg h p = Inr (descriptor h p n)"
      and "s3_upload_outcome h p (s3_bucket_name self)
             (uuid4_str h (uuid_draws w) @ lower (path_suffix p)) = S3Ok"
      and "db_first_fault h = None"
proof (cases rule: validate_file_cases [of self cfg h p])
  case (rejected m)
  from rejected(1,2) upload_document_rejected [OF rejected(2)] show thesis
    by (rule that(1))
next
  case (accepted k n)
  let ?key = "uuid4_str h (uuid_draws w) @ lower (path_suffix p)"
  show thesis
  proof (cases "s3_upload_outcome h p (s3_bucket_name self) ?key")
    case S3Ok
    show thesis
    proof (cases "db_first_fault h")
      case None
      with accepted(4) S3Ok show thesis by (rule that(4))
    next
      case (Some m)
      from upload_document_db_failed [OF accepted(4) S3Ok Some, of uid]
      obtain w' cs where "upload_document self cfg h p uid w =
            (Inr (failure (''Database error: '' @ m)), w')"
        and "calls w' = calls w @ S3UploadFile p (s3_bucket_name self) ?key # cs"
        and "\<forall>c \<in> set cs. is_db_call c"
        and "bucket w' = bucket w @ [(s3_bucket_name self, ?key, p)]"
        by blast
      with accepted(4) S3Ok Some show thesis by (rule that(3))
    qed
  next
    case (S3ClientError e)
    have "''S3 upload error: '' @ e \<noteq> []" by simp
    moreover note accepted(4)
    moreover have "s3_upload_outcome h p (s3_bucket_name self) ?key \<noteq> S3Ok"
      using S3ClientError by simp
    moreover note upload_document_client_error [OF accepted(4) S3ClientError, of uid]
    ultimately show thesis by (rule that(2))
  next
    case (S3OtherError e)
    have "''Upload error: '' @ e \<noteq> []" by simp
    moreover note accepted(4)
    moreover have "s3_upload_outcome h p (s3_bucket_name self) ?key \<noteq> S3Ok"
      using S3OtherError by simp
    moreover note upload_document_other_error [OF accepted(4) S3OtherError, of uid]
    ultimately show thesis by (rule that(2))
  qed
qed

lemma upload_document_reaches_store:
  assumes "validate_file self cfg h p = Inr (descriptor h p n)"
  shows "\<exists>cs. calls (snd (upload_document self cfg h p uid w)) =
           calls w @ S3UploadFile p (s3_bucket_name self)
             (uuid4_str h (uuid_draws w) @ lower (path_suffix p)) # cs
         \<and> (\<forall>c \<in> set cs. is_db_call c)"
proof (cases rule: upload_document_cases [of self cfg h p uid w])
  case (rejected m)
  with assms show ?thesis by (simp add: rejected_is_no_descriptor)
next
  case (storage_failed n' m)
  then show ?thesis by simp
next
  case (db_failed n' m w' cs)
  then show ?thesis by simp
next
  case (saved n')
  from upload_document_saved [OF saved, of uid] show ?thesis by simp
qed

subsection \<open>The sample installation, evaluated\<close>

lemmas sample_defs = sample_host_def sample_config_def
  sample_uploader_def sample_world_def sample_fs_def sample_guess_type_def sample_format_def
  sample_uuid4_str_def sample_s3_ok_def sample_db_ok_def
  sample_environ_def Config_SUPPORTED_EXTENSIONS_def getenv_def

lemmas store_down_defs = store_down_host_def sample_s3_denied_def

lemmas db_down_defs = db_down_host_def sample_db_refused_def

lemmas path_defs = path_str_def path_root_def path_parts_def path_name_def path_suffix_def
  rfind_dot_def lower_def lower_char_def

lemmas validate_defs = validate_file_def validate_file_with_def validate_file_try_with_def
  path_exists_def path_stat_size_def unsupported_format_error_def too_large_error_def
  too_large_text_def true_div_overflows_def Let_def

lemma sample_paths:
  "path_str ''syllabus.pdf'' = ''syllabus.pdf''" "lower (path_suffix ''syllabus.pdf'') = ''.pdf''"
  "path_name ''syllabus.pdf'' = ''syllabus.pdf''"
  "path_str ''lectures.pdf'' = ''lectures.pdf''" "lower (path_suffix ''lectures.pdf'') = ''.pdf''"
  "path_name ''lectures.pdf'' = ''lectures.pdf''"
  "path_str ''exact.pdf'' = ''exact.pdf''" "lower (path_suffix ''exact.pdf'') = ''.pdf''"
  "path_name ''exact.pdf'' = ''exact.pdf''"
  "path_str ''big.pdf'' = ''big.pdf''" "lower (path_suffix ''big.pdf'') = ''.pdf''"
  "path_str ''notes.txt'' = ''notes.txt''" "lower (path_suffix ''notes.txt'') = ''.txt''"
  "path_str ''scan.txt'' = ''scan.txt''" "lower (path_suffix ''scan.txt'') = ''.txt''"
  by (simp_all add: path_defs)

lemma sample_validate_notes:
  "validate_file sample_uploader sample_config sample_host ''notes.txt'' =
     Inr [''valid'' \<mapsto> PBool False,
          ''error'' \<mapsto> PStr ''Unsupported file format. Supported formats: .pdf, .doc, .docx'']"
  by (simp add: validate_defs sample_paths sample_defs)

lemma sample_validate_syllabus:
  "validate_file sample_uploader sample_config h ''syllabus.pdf'' =
     Inr (descriptor h ''syllabus.pdf'' 1024)"
  if "fs h = sample_fs"
  using that by (simp add: validate_defs sample_paths sample_defs)

lemma store_down_put:
  "upload_to_s3 sample_uploader store_down_host ''syllabus.pdf''
     (uuid4_str store_down_host (uuid_draws sample_world) @ lower (path_suffix ''syllabus.pdf''))
     (sample_world\<lparr>uuid_draws := Suc (uuid_draws sample_world)\<rparr>) =
   (Inr (failure ''S3 upload error: AccessDenied''),
    \<lparr>uuid_draws = 1,
     calls = [S3UploadFile ''syllabus.pdf'' ''syllabus-documents''
                ''3f2b8c1e-5d4a-4e6f-9a7b-0c1d2e3f4a5b.pdf''],
     bucket = [], documents = []\<rparr>)"
proof -
  have "s3_upload_outcome store_down_host ''syllabus.pdf'' (s3_bucket_name sample_uploader)
     (uuid4_str store_down_host (uuid_draws sample_world) @ lower (path_suffix ''syllabus.pdf''))
     = S3ClientError ''AccessDenied''"
    by (simp add: sample_defs store_down_defs)
  from upload_to_s3_client_error [OF this] show ?thesis
    by (simp add: sample_paths sample_defs store_down_defs)
qed

lemma sample_run:
  "upload_document sample_uploader sample_config sample_host ''syllabus.pdf'' ''user123''
       sample_world =
     (Inr [''success'' \<mapsto> PBool True,
           ''document_id'' \<mapsto> PStr ''7a9d0e2c-1b3f-4c8d-8e6a-5f4b3c2d1e0f'',
           ''file_name'' \<mapsto> PStr ''syllabus.pdf'',
           ''s3_url'' \<mapsto> PStr ''https://syllabus-documents.s3.us-east-1.amazonaws.com/3f2b8c1e-5d4a-4e6f-9a7b-0c1d2e3f4a5b.pdf'',
           ''message'' \<mapsto> PStr ''Document uploaded successfully''],
      \<lparr>uuid_draws = 2,
       calls = [S3UploadFile ''syllabus.pdf'' ''syllabus-documents''
                  ''3f2b8c1e-5d4a-4e6f-9a7b-0c1d2e3f4a5b.pdf'',
                DbConnect ''postgresql://app:secret@db:5432/docs?sslmode=require'',
                DbInsert
                  \<lparr>col_document_id = ''7a9d0e2c-1b3f-4c8d-8e6a-5f4b3c2d1e0f'',
                   col_user_id = ''user123'', col_file_name = PStr ''syllabus.pdf'',
                   col_file_extension = PStr ''.pdf'', col_file_size = PInt 1024,
                   col_mime_type = PStr ''application/pdf'',
                   col_s3_url = PStr ''https://syllabus-documents.s3.us-east-1.amazonaws.com/3f2b8c1e-5d4a-4e6f-9a7b-0c1d2e3f4a5b.pdf'',
                   col_upload_date = 1700000000, col_status = ''uploaded''\<rparr>,
                DbCommit],
       bucket = [(''syllabus-documents'', ''3f2b8c1e-5d4a-4e6f-9a7b-0c1d2e3f4a5b.pdf'',
                  ''syllabus.pdf'')],
       documents =
         [\<lparr>col_document_id = ''7a9d0e2c-1b3f-4c8d-8e6a-5f4b3c2d1e0f'',
           col_user_id = ''user123'', col_file_name = PStr ''syllabus.pdf'',
           col_file_extension = PStr ''.pdf'', col_file_size = PInt 1024,
           col_mime_type = PStr ''application/pdf'',
           col_s3_url = PStr ''https://syllabus-documents.s3.us-east-1.amazonaws.com/3f2b8c1e-5d4a-4e6f-9a7b-0c1d2e3f4a5b.pdf'',
           col_upload_date = 1700000000, col_status = ''uploaded''\<rparr>]\<rparr>)"
proof -
  have fs: "fs sample_host = sample_fs" by (simp add: sample_defs)
  note v = sample_validate_syllabus [OF fs]
  have ok: "s3_upload_outcome sample_host ''syllabus.pdf'' (s3_bucket_name sample_uploader)
      (uuid4_str sample_host (uuid_draws sample_world) @ lower (path_suffix ''syllabus.pdf''))
      = S3Ok"
    by (simp add: sample_defs)
  have db: "db_first_fault sample_host = None"
    by (simp add: db_first_fault_def sample_defs)
  from upload_document_saved [OF v ok db, of "''user123''"] show ?thesis
    by (simp add: sample_paths mime_value_def) (simp add: sample_defs)
qed

lemma sample_host_well_behaved:
  "\<forall>n. uuid4_str sample_host n \<noteq> []"
  "\<forall>f b k. s3_upload_outcome sample_host f b k = S3Ok \<longrightarrow> path_name f \<noteq> []"
  by (auto simp add: sample_defs path_defs split: if_splits fs_node.splits node_kind.splits)

subsection \<open>Whatever the steps do\<close>




text \<open>
  A run in which the handler of \<open>upload_document\<close> is the one that answers: the
  random source of \<open>uuid.uuid4()\<close> fails after validation has passed.
\<close>

lemma unexpected_exception_is_reported:
  "upload_document_with
     (lift (validate_file sample_uploader sample_config sample_host ''syllabus.pdf''))
     (lift (Inl (OtherException ''no random source'')))
     (upload_to_s3 sample_uploader sample_host ''syllabus.pdf'')
     save sample_world =
   (Inr (failure ''Upload failed: no random source''), sample_world)"
proof -
  have fs: "fs sample_host = sample_fs" by (simp add: sample_defs)
  show ?thesis
    by (simp add: sample_validate_syllabus [OF fs] upload_document_with_def
        upload_document_try_with_def except_def then_do_def lift_def returns_def getitem_def)
qed

section \<open>The claims\<close>

subsection \<open>Validation\<close>

text \<open>
  C4. The claim: at every path where no regular file exists, a directory included,
  \<open>validate_file\<close> fails with "File does not exist". The code tests
  \<open>file_path.exists()\<close>, which is true of a directory. In the sample installation
  \<open>lectures.pdf\<close> is a directory, and \<open>validate_file\<close> accepts it: the result is
  \<open>valid = True\<close> with the directory's size as the file size. (At a path where nothing
  exists the code does answer "File does not exist": \<open>validate_file_missing\<close>.)
\<close>

theorem directory_passes_validate_file:
  "fs sample_host (path_str ''lectures.pdf'') = Entry Directory 4096 \<and>
   validate_file sample_uploader sample_config sample_host ''lectures.pdf'' =
     Inr [''valid'' \<mapsto> PBool True,
          ''file_name'' \<mapsto> PStr ''lectures.pdf'',
          ''file_extension'' \<mapsto> PStr ''.pdf'',
          ''file_size'' \<mapsto> PInt 4096,
          ''mime_type'' \<mapsto> PStr ''application/pdf'',
          ''file_path'' \<mapsto> PStr ''lectures.pdf'']"
  by (simp add: validate_defs sample_paths sample_defs mime_value_def)

text \<open>
  C5. The claim: every file whose size exceeds the maximum fails with the size error,
  and a file of exactly the maximum size does not fail on size. The code checks the
  extension before the size, and the text of the size error divides both sizes by
  \<open>1024*1024\<close> in floating point. What holds, for a path that exists and whose
  lowercased suffix is in the allow-set: when its size exceeds \<open>MAX_FILE_SIZE\<close>, by one
  byte or more, and neither number overflows a float when divided, \<open>validate_file\<close>
  fails with the "File too large" error; when its size equals \<open>MAX_FILE_SIZE\<close>,
  \<open>validate_file\<close> accepts it and \<open>upload_document\<close> goes on to upload it to the
  store.
\<close>

theorem size_check_is_strict:
  assumes "fs h (path_str p) = Entry k n"
    and "lower (path_suffix p) \<in> set (supported_extensions self)"
  shows "(MAX_FILE_SIZE cfg < int n
            \<and> \<not> true_div_overflows (MAX_FILE_SIZE cfg) (1024 * 1024)
            \<and> \<not> true_div_overflows (int n) (1024 * 1024) \<longrightarrow>
            validate_file self cfg h p =
              Inr [''valid'' \<mapsto> PBool False,
                   ''error'' \<mapsto> PStr (too_large_text h (MAX_FILE_SIZE cfg) (int n))])
       \<and> (int n = MAX_FILE_SIZE cfg \<longrightarrow>
            validate_file self cfg h p = Inr (descriptor h p n)
          \<and> S3UploadFile p (s3_bucket_name self)
               (uuid4_str h (uuid_draws w) @ lower (path_suffix p))
              \<in> set (calls (snd (upload_document self cfg h p uid w))))"
proof (intro conjI impI)
  assume "MAX_FILE_SIZE cfg < int n
            \<and> \<not> true_div_overflows (MAX_FILE_SIZE cfg) (1024 * 1024)
            \<and> \<not> true_div_overflows (int n) (1024 * 1024)"
  with assms show "validate_file self cfg h p =
      Inr [''valid'' \<mapsto> PBool False,
           ''error'' \<mapsto> PStr (too_large_text h (MAX_FILE_SIZE cfg) (int n))]"
    by (simp add: validate_file_def validate_file_with_def validate_file_try_with_def
        path_exists_def path_stat_size_def too_large_error_def)
next
  assume eq: "int n = MAX_FILE_SIZE cfg"
  with assms show v: "validate_file self cfg h p = Inr (descriptor h p n)"
    by (simp add: validate_file_def validate_file_with_def validate_file_try_with_def
        path_exists_def path_stat_size_def)
  from upload_document_reaches_store [OF v, of uid w]
  show "S3UploadFile p (s3_bucket_name self)
               (uuid4_str h (uuid_draws w) @ lower (path_suffix p))
              \<in> set (calls (snd (upload_document self cfg h p uid w)))"
    by auto
qed

theorem size_check_is_strict_witness:
  "validate_file sample_uploader sample_config sample_host ''big.pdf'' =
     Inr [''valid'' \<mapsto> PBool False,
          ''error'' \<mapsto> PStr ''File too large. Maximum size: 50MB, Current size: 50.00MB'']
   \<and> validate_file sample_uploader sample_config sample_host ''exact.pdf'' =
     Inr [''valid'' \<mapsto> PBool True,
          ''file_name'' \<mapsto> PStr ''exact.pdf'',
          ''file_extension'' \<mapsto> PStr ''.pdf'',
          ''file_size'' \<mapsto> PInt 52428800,
          ''mime_type'' \<mapsto> PStr ''application/pdf'',
          ''file_path'' \<mapsto> PStr ''exact.pdf'']
   \<and> S3UploadFile ''exact.pdf'' ''syllabus-documents''
        ''3f2b8c1e-5d4a-4e6f-9a7b-0c1d2e3f4a5b.pdf''
       \<in> set (calls (snd (upload_document sample_uploader sample_config sample_host
                 ''exact.pdf'' ''user123'' sample_world)))"
proof -
  have big: "fs sample_host (path_str ''big.pdf'') = Entry RegularFile 52428801"
    and exact: "fs sample_host (path_str ''exact.pdf'') = Entry RegularFile 52428800"
    by (simp_all add: sample_paths sample_defs)
  have big_ext: "lower (path_suffix ''big.pdf'') \<in> set (supported_extensions sample_uploader)"
    and exact_ext: "lower (path_suffix ''exact.pdf'') \<in> set (supported_extensions sample_uploader)"
    by (simp_all add: sample_paths sample_defs)
  have range: "\<not> true_div_overflows (MAX_FILE_SIZE sample_config) (1024 * 1024)"
    "\<not> true_div_overflows (int 52428801) (1024 * 1024)"
    by (simp_all add: true_div_overflows_def sample_config_def)
  from size_check_is_strict [OF big big_ext, of sample_config] range
    size_check_is_strict [OF exact exact_ext, of sample_config sample_world "''user123''"]
  show ?thesis
    by (simp add: sample_paths too_large_text_def mime_value_def)
       (simp add: sample_defs)
qed

text \<open>
  The runs that refute the claim as stated. A 60 MB file named \<open>scan.txt\<close>, above the
  50 MB maximum, is rejected for its extension, not for its size. And with a maximum
  below \<open>-2 ** 1044\<close> every file is above the maximum, but the message cannot be
  formatted: the answer is the validation error of the overflow.
\<close>

theorem size_check_counterexample:
  "fs sample_host (path_str ''scan.txt'') = Entry RegularFile 62914560
   \<and> MAX_FILE_SIZE sample_config < 62914560
   \<and> validate_file sample_uploader sample_config sample_host ''scan.txt'' =
       Inr [''valid'' \<mapsto> PBool False,
            ''error'' \<mapsto> PStr ''Unsupported file format. Supported formats: .pdf, .doc, .docx'']
   \<and> fs sample_host (path_str ''syllabus.pdf'') = Entry RegularFile 1024
   \<and> MAX_FILE_SIZE abyss_config < 1024
   \<and> validate_file sample_uploader abyss_config sample_host ''syllabus.pdf'' =
       Inr [''valid'' \<mapsto> PBool False,
            ''error'' \<mapsto> PStr ''Validation error: integer division result too large for a float'']"
  by (simp add: validate_defs sample_paths sample_defs abyss_config_def)

text \<open>
  C6. The claim: the allow-set is the comma-separated \<open>SUPPORTED_EXTENSIONS\<close> value with
  every entry lowercased and given a leading separator, so that matching ignores case on
  both sides. The code splits the value at commas and keeps every entry as it is written.
  What holds: the allow-set of an uploader built from the configuration is the set of the
  entries of the comma-separated value, verbatim; and for a path that exists,
  \<open>validate_file\<close> fails with the "Unsupported file format" error exactly when the
  lowercased suffix of the path is not one of these entries. Matching ignores the case of
  the file name only.
\<close>

theorem unsupported_format_iff_not_configured:
  assumes "init_supported_extensions cfg (supported_extensions self)"
    and "SUPPORTED_EXTENSIONS cfg = Config_SUPPORTED_EXTENSIONS environ"
    and "fs h (path_str p) = Entry k n"
  shows "set (supported_extensions self) =
           set (split CHR '','' (getenv environ ''SUPPORTED_EXTENSIONS'' ''.pdf,.doc,.docx''))
     \<and> (validate_file self cfg h p =
           Inr [''valid'' \<mapsto> PBool False, ''error'' \<mapsto> PStr (unsupported_format_error self)]
         \<longleftrightarrow> lower (path_suffix p) \<notin>
               set (split CHR '','' (getenv environ ''SUPPORTED_EXTENSIONS'' ''.pdf,.doc,.docx'')))"
proof -
  have allow: "set (supported_extensions self) =
      set (split CHR '','' (getenv environ ''SUPPORTED_EXTENSIONS'' ''.pdf,.doc,.docx''))"
    using assms(1,2) by (simp add: init_supported_extensions_def Config_SUPPORTED_EXTENSIONS_def)
  have "validate_file self cfg h p =
           Inr [''valid'' \<mapsto> PBool False, ''error'' \<mapsto> PStr (unsupported_format_error self)]
         \<longleftrightarrow> lower (path_suffix p) \<notin> set (supported_extensions self)"
  proof (cases "lower (path_suffix p) \<in> set (supported_extensions self)")
    case False
    with assms(3) show ?thesis
      by (simp add: validate_file_def validate_file_with_def validate_file_try_with_def
          path_exists_def)
  next
    case True
    with allowed_is_not_unsupported [OF assms(3) True] show ?thesis by simp
  qed
  with allow show ?thesis by simp
qed

theorem unsupported_format_iff_not_configured_witness:
  "lower (path_suffix ''notes.txt'') \<notin> set (Config_SUPPORTED_EXTENSIONS sample_environ)
   \<and> validate_file sample_uploader sample_config sample_host ''notes.txt'' =
       Inr [''valid'' \<mapsto> PBool False,
            ''error'' \<mapsto> PStr ''Unsupported file format. Supported formats: .pdf, .doc, .docx'']
   \<and> lower (path_suffix ''syllabus.pdf'') \<in> set (Config_SUPPORTED_EXTENSIONS sample_environ)
   \<and> validate_file sample_uploader sample_config sample_host ''syllabus.pdf'' \<noteq>
       Inr [''valid'' \<mapsto> PBool False,
            ''error'' \<mapsto> PStr ''Unsupported file format. Supported formats: .pdf, .doc, .docx'']"
proof -
  have a: "init_supported_extensions sample_config (supported_extensions sample_uploader)"
    by (simp add: init_supported_extensions_def sample_defs)
  have b: "SUPPORTED_EXTENSIONS sample_config = Config_SUPPORTED_EXTENSIONS sample_environ"
    by (simp add: sample_config_def)
  have c: "fs sample_host (path_str ''notes.txt'') = Entry RegularFile 10"
    and d: "fs sample_host (path_str ''syllabus.pdf'') = Entry RegularFile 1024"
    by (simp_all add: sample_paths sample_defs)
  have e: "unsupported_format_error sample_uploader =
      ''Unsupported file format. Supported formats: .pdf, .doc, .docx''"
    by (simp add: unsupported_format_error_def sample_defs)
  from unsupported_format_iff_not_configured [OF a b c]
    unsupported_format_iff_not_configured [OF a b d]
  show ?thesis
    unfolding e by (simp add: sample_paths sample_defs)
qed

text \<open>
  The run that refutes the claim as stated: with \<open>SUPPORTED_EXTENSIONS=.PDF,doc\<close> the
  normalised allow-set of the specification is \<open>.pdf\<close>, \<open>.doc\<close> and holds the suffix
  of \<open>syllabus.pdf\<close>, yet \<open>validate_file\<close> rejects the file as unsupported.
\<close>

theorem normalized_allow_set_counterexample:
  "Config_SUPPORTED_EXTENSIONS upper_environ = [''.PDF'', ''doc'']
   \<and> spec_allow_set upper_environ = [''.pdf'', ''.doc'']
   \<and> lower (path_suffix ''syllabus.pdf'') \<in> set (spec_allow_set upper_environ)
   \<and> validate_file upper_uploader upper_config sample_host ''syllabus.pdf'' =
       Inr [''valid'' \<mapsto> PBool False,
            ''error'' \<mapsto> PStr ''Unsupported file format. Supported formats: .PDF, doc'']"
proof -
  have cfg: "Config_SUPPORTED_EXTENSIONS upper_environ = [''.PDF'', ''doc'']"
    by (simp add: Config_SUPPORTED_EXTENSIONS_def getenv_def upper_environ_def)
  have spec: "spec_allow_set upper_environ = [''.pdf'', ''.doc'']"
    by (simp add: spec_allow_set_def cfg spec_normalized_def lower_def lower_char_def)
  have "validate_file upper_uploader upper_config sample_host ''syllabus.pdf'' =
       Inr [''valid'' \<mapsto> PBool False,
            ''error'' \<mapsto> PStr ''Unsupported file format. Supported formats: .PDF, doc'']"
    by (simp add: validate_defs sample_paths upper_uploader_def upper_config_def
        sample_uploader_def sample_host_def sample_fs_def)
  with cfg spec show ?thesis by (simp add: sample_paths)
qed

subsection \<open>The pipeline\<close>

text \<open>
  C3. When validation fails, \<open>upload_document\<close> returns \<open>success = False\<close> with the
  error of the validation result, unchanged, and the world it returns is the world it
  started in: no call reached the object store or the database, no UUID was drawn.
\<close>

theorem rejected_upload_has_no_effect:
  assumes "validate_file self cfg h p = Inr v" and "v ''valid'' = Some (PBool False)"
  shows "\<exists>err. v ''error'' = Some err
     \<and> upload_document self cfg h p uid w =
         (Inr [''success'' \<mapsto> PBool False, ''error'' \<mapsto> err], w)"
proof (cases rule: validate_file_cases [of self cfg h p])
  case (rejected m)
  with assms(1) have v: "v = [''valid'' \<mapsto> PBool False, ''error'' \<mapsto> PStr m]" by simp
  from upload_document_rejected [OF rejected(2)] v show ?thesis by simp
next
  case (accepted k n)
  with assms(1) have "v = descriptor h p n" by simp
  then have "v ''valid'' = Some (PBool True)" by simp
  with assms(2) show ?thesis by simp
qed

theorem rejected_upload_has_no_effect_witness:
  "validate_file sample_uploader sample_config sample_host ''notes.txt'' =
     Inr [''valid'' \<mapsto> PBool False,
          ''error'' \<mapsto> PStr ''Unsupported file format. Supported formats: .pdf, .doc, .docx'']
   \<and> upload_document sample_uploader sample_config sample_host ''notes.txt'' ''user123''
         sample_world =
       (Inr (failure ''Unsupported file format. Supported formats: .pdf, .doc, .docx''),
        sample_world)"
  using rejected_upload_has_no_effect [OF sample_validate_notes, of "''user123''" sample_world]
    sample_validate_notes
  by simp


text \<open>
  C2. When validation has passed and \<open>upload_to_s3\<close>, called with the generated key,
  returns \<open>success = False\<close>, \<open>upload_document\<close> returns \<open>success = False\<close> with
  the error of the storage result and stops in the world \<open>upload_to_s3\<close> left: no
  database call was made and no row was written.
\<close>

theorem failed_put_skips_insert:
  assumes "validate_file self cfg h p = Inr v" and "v ''valid'' = Some (PBool True)"
    and "upload_to_s3 self h p (uuid4_str h (uuid_draws w) @ lower (path_suffix p))
           (w\<lparr>uuid_draws := Suc (uuid_draws w)\<rparr>) = (Inr u, w2)"
    and "u ''success'' = Some (PBool False)"
  shows "\<exists>err. u ''error'' = Some err
     \<and> upload_document self cfg h p uid w =
         (Inr [''success'' \<mapsto> PBool False, ''error'' \<mapsto> err], w2)
     \<and> filter is_db_call (calls w2) = filter is_db_call (calls w)
     \<and> documents w2 = documents w"
proof -
  let ?key = "uuid4_str h (uuid_draws w) @ lower (path_suffix p)"
  from assms(1,2) obtain k n where v: "v = descriptor h p n"
    by (rule accepted_descriptor)
  with assms(1) have val: "validate_file self cfg h p = Inr (descriptor h p n)" by simp
  show ?thesis
  proof (cases "s3_upload_outcome h p (s3_bucket_name self) ?key")
    case S3Ok
    from upload_to_s3_ok [OF S3Ok, of "w\<lparr>uuid_draws := Suc (uuid_draws w)\<rparr>"] assms(3)
    have "u ''success'' = Some (PBool True)" by auto
    with assms(4) show ?thesis by simp
  next
    case (S3ClientError e)
    from upload_to_s3_client_error [OF S3ClientError, of "w\<lparr>uuid_draws := Suc (uuid_draws w)\<rparr>"]
      assms(3)
    have u: "u = failure (''S3 upload error: '' @ e)"
      and w2: "w2 = w\<lparr>uuid_draws := Suc (uuid_draws w),
                 calls := calls w @ [S3UploadFile p (s3_bucket_name self) ?key]\<rparr>"
      by auto
    from upload_document_client_error [OF val S3ClientError, of uid] u w2
    show ?thesis by simp
  next
    case (S3OtherError e)
    from upload_to_s3_other_error [OF S3OtherError, of "w\<lparr>uuid_draws := Suc (uuid_draws w)\<rparr>"]
      assms(3)
    have u: "u = failure (''Upload error: '' @ e)"
      and w2: "w2 = w\<lparr>uuid_draws := Suc (uuid_draws w),
                 calls := calls w @ [S3UploadFile p (s3_bucket_name self) ?key]\<rparr>"
      by auto
    from upload_document_other_error [OF val S3OtherError, of uid] u w2
    show ?thesis by simp
  qed
qed

theorem failed_put_skips_insert_witness:
  "validate_file sample_uploader sample_config store_down_host ''syllabus.pdf'' =
     Inr (descriptor store_down_host ''syllabus.pdf'' 1024)
   \<and> upload_document sample_uploader sample_config store_down_host ''syllabus.pdf'' ''user123''
       sample_world =
     (Inr (failure ''S3 upload error: AccessDenied''),
      \<lparr>uuid_draws = 1,
       calls = [S3UploadFile ''syllabus.pdf'' ''syllabus-documents''
                  ''3f2b8c1e-5d4a-4e6f-9a7b-0c1d2e3f4a5b.pdf''],
       bucket = [], documents = []\<rparr>)"
proof -
  have fs: "fs store_down_host = sample_fs" by (simp add: sample_defs store_down_defs)
  note v = sample_validate_syllabus [OF fs]
  from failed_put_skips_insert [OF v _ store_down_put, where uid = "''user123''"] v
  show ?thesis by simp
qed

text \<open>
  C1. The claim: when the upload to the store succeeds and the insert fails, the object
  is deleted again, with exactly one delete call for the key of the upload. The code has
  no delete: \<open>upload_document\<close> returns the database error and leaves the object in the
  store. What holds: when validation has passed, \<open>upload_to_s3\<close> returned
  \<open>success = True\<close> and \<open>save_to_database\<close> returned \<open>success = False\<close>,
  \<open>upload_document\<close> returns \<open>success = False\<close> with the error of the database
  result, in the world \<open>save_to_database\<close> left; no delete call was made, and the
  object uploaded under the generated key is still in the store.
\<close>

theorem failed_insert_reported_blob_kept:
  assumes "validate_file self cfg h p = Inr v" and "v ''valid'' = Some (PBool True)"
    and "upload_to_s3 self h p (uuid4_str h (uuid_draws w) @ lower (path_suffix p))
           (w\<lparr>uuid_draws := Suc (uuid_draws w)\<rparr>) = (Inr u, w2)"
    and "u ''success'' = Some (PBool True)" and "u ''s3_url'' = Some url"
    and "save_to_database self h v url uid w2 = (Inr d, w3)"
    and "d ''success'' = Some (PBool False)"
  shows "\<exists>err. d ''error'' = Some err
     \<and> upload_document self cfg h p uid w =
         (Inr [''success'' \<mapsto> PBool False, ''error'' \<mapsto> err], w3)
     \<and> filter is_delete_call (calls w3) = filter is_delete_call (calls w)
     \<and> (s3_bucket_name self, uuid4_str h (uuid_draws w) @ lower (path_suffix p), p)
          \<in> set (bucket w3)"
proof -
  let ?key = "uuid4_str h (uuid_draws w) @ lower (path_suffix p)"
  let ?w1 = "w\<lparr>uuid_draws := Suc (uuid_draws w)\<rparr>"
  let ?w2 = "w\<lparr>uuid_draws := Suc (uuid_draws w),
               calls := calls w @ [S3UploadFile p (s3_bucket_name self) ?key],
               bucket := bucket w @ [(s3_bucket_name self, ?key, p)]\<rparr>"
  from assms(1,2) obtain k n where v: "v = descriptor h p n"
    by (rule accepted_descriptor)
  with assms(1) have val: "validate_file self cfg h p = Inr (descriptor h p n)" by simp
  have ok: "s3_upload_outcome h p (s3_bucket_name self) ?key = S3Ok"
  proof (cases "s3_upload_outcome h p (s3_bucket_name self) ?key")
    case S3Ok
    then show ?thesis .
  next
    case (S3ClientError e)
    from upload_to_s3_client_error [OF S3ClientError, of ?w1] assms(3)
    have "u ''success'' = Some (PBool False)" by auto
    with assms(4) show ?thesis by simp
  next
    case (S3OtherError e)
    from upload_to_s3_other_error [OF S3OtherError, of ?w1] assms(3)
    have "u ''success'' = Some (PBool False)" by auto
    with assms(4) show ?thesis by simp
  qed
  from upload_to_s3_ok [OF ok, of ?w1] assms(3)
  have u: "u = [''success'' \<mapsto> PBool True, ''s3_url'' \<mapsto> PStr (object_url self ?key),
                ''s3_key'' \<mapsto> PStr ?key]"
    and w2: "w2 = ?w2"
    by auto
  from u assms(5) have url: "url = PStr (object_url self ?key)" by simp
  from assms(6) have save: "save_to_database self h (descriptor h p n)
      (PStr (object_url self ?key)) uid ?w2 = (Inr d, w3)"
    unfolding v url w2 .
  obtain m where fault: "db_first_fault h = Some m"
  proof (cases "db_first_fault h")
    case None
    from save_to_database_ok [OF None, of self p n "PStr (object_url self ?key)" uid ?w2] save
    have "d ''success'' = Some (PBool True)" by auto
    with assms(7) show ?thesis by simp
  next
    case (Some m)
    then show ?thesis by (rule that)
  qed
  from save_to_database_failed [OF fault, of self p n "PStr (object_url self ?key)" uid ?w2] save
  obtain cs where d: "d = failure (''Database error: '' @ m)"
    and c: "calls w3 = calls ?w2 @ cs" and db: "\<forall>c \<in> set cs. is_db_call c"
    and b: "bucket w3 = bucket ?w2"
    by auto
  have "upload_document self cfg h p uid w = (Inr (failure (''Database error: '' @ m)), w3)"
    unfolding upload_document_stored [OF val ok] save d by simp
  moreover have "filter is_delete_call (calls w3) = filter is_delete_call (calls w)"
    using c db by (simp add: filter_delete_db_calls)
  ultimately show ?thesis using d b by simp
qed

theorem failed_insert_reported_blob_kept_witness:
  "upload_document sample_uploader sample_config db_down_host ''syllabus.pdf'' ''user123''
       sample_world =
     (Inr (failure ''Database error: connection refused''),
      \<lparr>uuid_draws = 1,
       calls = [S3UploadFile ''syllabus.pdf'' ''syllabus-documents''
                  ''3f2b8c1e-5d4a-4e6f-9a7b-0c1d2e3f4a5b.pdf'',
                DbConnect ''postgresql://app:secret@db:5432/docs?sslmode=require''],
       bucket = [(''syllabus-documents'', ''3f2b8c1e-5d4a-4e6f-9a7b-0c1d2e3f4a5b.pdf'',
                  ''syllabus.pdf'')],
       documents = []\<rparr>)"
proof -
  let ?key = "uuid4_str db_down_host (uuid_draws sample_world) @ lower (path_suffix ''syllabus.pdf'')"
  let ?w1 = "sample_world\<lparr>uuid_draws := Suc (uuid_draws sample_world)\<rparr>"
  let ?w2 = "?w1\<lparr>calls := calls ?w1 @ [S3UploadFile ''syllabus.pdf'' (s3_bucket_name sample_uploader) ?key],
       bucket := bucket ?w1 @ [(s3_bucket_name sample_uploader, ?key, ''syllabus.pdf'')]\<rparr>"
  have fs: "fs db_down_host = sample_fs" by (simp add: sample_defs db_down_defs)
  note v = sample_validate_syllabus [OF fs]
  have ok: "s3_upload_outcome db_down_host ''syllabus.pdf'' (s3_bucket_name sample_uploader) ?key
      = S3Ok"
    by (simp add: sample_defs db_down_defs)
  note put = upload_to_s3_ok [OF ok, of ?w1]
  have save: "save_to_database sample_uploader db_down_host
      (descriptor db_down_host ''syllabus.pdf'' 1024)
      (PStr (object_url sample_uploader ?key)) ''user123'' ?w2 =
    (Inr (failure ''Database error: connection refused''),
     log_call (DbConnect (db_connection_string sample_uploader)) ?w2)"
    by (simp add: save_to_database_def except_def then_do_def psycopg2_connect_def db_do_def
        returns_def sample_defs db_down_defs)
  from failed_insert_reported_blob_kept [OF v _ put _ _ save]
  show ?thesis
    by (simp add: log_call_def sample_paths sample_defs db_down_defs)
qed

text \<open>
  The run that refutes the claim as stated: in the sample installation with the database
  refusing connections, the log of the run holds the upload and the connection attempt,
  and not one delete call; the object stays in the bucket.
\<close>

theorem compensating_delete_counterexample:
  "upload_document sample_uploader sample_config db_down_host ''syllabus.pdf'' ''user123''
       sample_world =
     (Inr (failure ''Database error: connection refused''),
      \<lparr>uuid_draws = 1,
       calls = [S3UploadFile ''syllabus.pdf'' ''syllabus-documents''
                  ''3f2b8c1e-5d4a-4e6f-9a7b-0c1d2e3f4a5b.pdf'',
                DbConnect ''postgresql://app:secret@db:5432/docs?sslmode=require''],
       bucket = [(''syllabus-documents'', ''3f2b8c1e-5d4a-4e6f-9a7b-0c1d2e3f4a5b.pdf'',
                  ''syllabus.pdf'')],
       documents = []\<rparr>)
   \<and> length (filter is_delete_call
        (calls (snd (upload_document sample_uploader sample_config db_down_host
           ''syllabus.pdf'' ''user123'' sample_world)))) \<noteq> 1"
proof -
  have fs: "fs db_down_host = sample_fs" by (simp add: sample_defs db_down_defs)
  note v = sample_validate_syllabus [OF fs]
  have ok: "s3_upload_outcome db_down_host ''syllabus.pdf'' (s3_bucket_name sample_uploader)
      (uuid4_str db_down_host (uuid_draws sample_world) @ lower (path_suffix ''syllabus.pdf''))
      = S3Ok"
    by (simp add: sample_defs db_down_defs)
  have run: "upload_document sample_uploader sample_config db_down_host ''syllabus.pdf''
       ''user123'' sample_world =
     (Inr (failure ''Database error: connection refused''),
      \<lparr>uuid_draws = 1,
       calls = [S3UploadFile ''syllabus.pdf'' ''syllabus-documents''
                  ''3f2b8c1e-5d4a-4e6f-9a7b-0c1d2e3f4a5b.pdf'',
                DbConnect ''postgresql://app:secret@db:5432/docs?sslmode=require''],
       bucket = [(''syllabus-documents'', ''3f2b8c1e-5d4a-4e6f-9a7b-0c1d2e3f4a5b.pdf'',
                  ''syllabus.pdf'')],
       documents = []\<rparr>)"
    unfolding upload_document_stored [OF v ok]
    by (simp add: save_to_database_def except_def then_do_def psycopg2_connect_def db_do_def
        log_call_def returns_def sample_paths sample_defs db_down_defs)
  show ?thesis unfolding run by simp
qed

text \<open>
  C7. The key under which a validated file is stored is the text of the next UUID the
  generator draws followed by the lowercased suffix of the path, which is the
  \<open>file_extension\<close> of the validation result. Nothing else of the path enters it: two
  validated paths with the same lowercased suffix, uploaded from the same world by any
  two users, are stored under the same key.
\<close>

theorem storage_key_is_uuid_and_extension:
  assumes "validate_file self cfg h p = Inr v" and "v ''valid'' = Some (PBool True)"
  shows "v ''file_extension'' = Some (PStr (lower (path_suffix p)))
     \<and> upload_keys (calls (snd (upload_document self cfg h p uid w))) =
         upload_keys (calls w) @ [uuid4_str h (uuid_draws w) @ lower (path_suffix p)]
     \<and> (\<forall>q v' uid'.
           validate_file self cfg h q = Inr v' \<and> v' ''valid'' = Some (PBool True)
           \<and> lower (path_suffix q) = lower (path_suffix p) \<longrightarrow>
           upload_keys (calls (snd (upload_document self cfg h q uid' w))) =
           upload_keys (calls (snd (upload_document self cfg h p uid w))))"
proof -
  have key: "upload_keys (calls (snd (upload_document self cfg h q uid' w))) =
         upload_keys (calls w) @ [uuid4_str h (uuid_draws w) @ lower (path_suffix q)]"
    if "validate_file self cfg h q = Inr v'" and "v' ''valid'' = Some (PBool True)"
    for q v' uid'
  proof -
    from that obtain k n where "v' = descriptor h q n" by (rule accepted_descriptor)
    with that(1) have "validate_file self cfg h q = Inr (descriptor h q n)" by simp
    from upload_document_reaches_store [OF this, of uid' w]
    show ?thesis by (auto simp add: upload_keys_append upload_keys_db_calls)
  qed
  from assms obtain k n where "v = descriptor h p n" by (rule accepted_descriptor)
  then have "v ''file_extension'' = Some (PStr (lower (path_suffix p)))" by simp
  moreover note key [OF assms]
  moreover have "upload_keys (calls (snd (upload_document self cfg h q uid' w))) =
           upload_keys (calls (snd (upload_document self cfg h p uid w)))"
    if "validate_file self cfg h q = Inr v'" and "v' ''valid'' = Some (PBool True)"
      and "lower (path_suffix q) = lower (path_suffix p)" for q v' uid'
    using key [OF that(1,2), of uid'] key [OF assms, of uid] that(3) by simp
  ultimately show ?thesis by blast
qed

theorem storage_key_is_uuid_and_extension_witness:
  "upload_keys (calls (snd (upload_document sample_uploader sample_config sample_host
      ''syllabus.pdf'' ''user123'' sample_world))) = [''3f2b8c1e-5d4a-4e6f-9a7b-0c1d2e3f4a5b.pdf'']
   \<and> upload_keys (calls (snd (upload_document sample_uploader sample_config sample_host
      ''exact.pdf'' ''user456'' sample_world))) = [''3f2b8c1e-5d4a-4e6f-9a7b-0c1d2e3f4a5b.pdf'']"
proof -
  have a: "validate_file sample_uploader sample_config sample_host ''syllabus.pdf'' =
      Inr (descriptor sample_host ''syllabus.pdf'' 1024)"
    by (rule sample_validate_syllabus) (simp add: sample_defs)
  have b: "validate_file sample_uploader sample_config sample_host ''exact.pdf'' =
      Inr (descriptor sample_host ''exact.pdf'' 52428800)"
    by (simp add: validate_defs sample_paths sample_defs)
  have valid: "descriptor sample_host ''syllabus.pdf'' 1024 ''valid'' = Some (PBool True)"
    "descriptor sample_host ''exact.pdf'' 52428800 ''valid'' = Some (PBool True)"
    by simp_all
  note t = storage_key_is_uuid_and_extension [OF a valid(1),
      where uid = "''user123''" and w = sample_world]
  from t have k1: "upload_keys (calls (snd (upload_document sample_uploader sample_config
      sample_host ''syllabus.pdf'' ''user123'' sample_world))) =
      upload_keys (calls sample_world) @
        [uuid4_str sample_host (uuid_draws sample_world) @ lower (path_suffix ''syllabus.pdf'')]"
    by blast
  from t have "\<forall>q v' uid'.
      validate_file sample_uploader sample_config sample_host q = Inr v'
        \<and> v' ''valid'' = Some (PBool True)
        \<and> lower (path_suffix q) = lower (path_suffix ''syllabus.pdf'') \<longrightarrow>
      upload_keys (calls (snd (upload_document sample_uploader sample_config sample_host
        q uid' sample_world))) =
      upload_keys (calls (snd (upload_document sample_uploader sample_config sample_host
        ''syllabus.pdf'' ''user123'' sample_world)))"
    by blast
  from this [rule_format, of "''exact.pdf''" "descriptor sample_host ''exact.pdf'' 52428800"
      "''user456''"] b valid(2)
  have k2: "upload_keys (calls (snd (upload_document sample_uploader sample_config sample_host
        ''exact.pdf'' ''user456'' sample_world))) =
      upload_keys (calls (snd (upload_document sample_uploader sample_config sample_host
        ''syllabus.pdf'' ''user123'' sample_world)))"
    by (simp add: sample_paths)
  from k1 k2 show ?thesis by (simp add: sample_paths sample_defs)
qed

text \<open>
  C8. Whenever \<open>upload_document\<close> returns \<open>success = True\<close>, exactly one row was
  added to the \<open>documents\<close> table. Its status is \<open>uploaded\<close>; its \<open>document_id\<close> is
  the UUID drawn after the one of the storage key (two draws in all); its \<open>user_id\<close> is
  the caller's; its \<open>file_name\<close>, \<open>file_extension\<close>, \<open>file_size\<close> and \<open>mime_type\<close>
  are the values of the validation result; its \<open>s3_url\<close> is the URL \<open>upload_to_s3\<close>
  returned. The result holds that \<open>document_id\<close>, that \<open>file_name\<close> and that URL,
  with \<open>success = True\<close> and the closing message.
\<close>

theorem successful_upload_record:
  assumes "upload_document self cfg h p uid w = (Inr r, w')"
    and "r ''success'' = Some (PBool True)"
  shows "\<exists>v u w2 row.
      validate_file self cfg h p = Inr v
    \<and> upload_to_s3 self h p (uuid4_str h (uuid_draws w) @ lower (path_suffix p))
         (w\<lparr>uuid_draws := Suc (uuid_draws w)\<rparr>) = (Inr u, w2)
    \<and> documents w' = documents w @ [row]
    \<and> col_status row = ''uploaded''
    \<and> col_document_id row = uuid4_str h (Suc (uuid_draws w))
    \<and> uuid_draws w' = Suc (Suc (uuid_draws w))
    \<and> col_user_id row = uid
    \<and> v ''file_name'' = Some (col_file_name row)
    \<and> v ''file_extension'' = Some (col_file_extension row)
    \<and> v ''file_size'' = Some (col_file_size row)
    \<and> v ''mime_type'' = Some (col_mime_type row)
    \<and> u ''s3_url'' = Some (col_s3_url row)
    \<and> r = [''success'' \<mapsto> PBool True,
            ''document_id'' \<mapsto> PStr (col_document_id row),
            ''file_name'' \<mapsto> col_file_name row,
            ''s3_url'' \<mapsto> col_s3_url row,
            ''message'' \<mapsto> PStr ''Document uploaded successfully'']"
proof (cases rule: upload_document_cases [of self cfg h p uid w])
  case (rejected m)
  with assms(1) have "r = failure m" by simp
  then have "r ''success'' = Some (PBool False)" by simp
  with assms(2) show ?thesis by simp
next
  case (storage_failed n m)
  with assms(1) have "r = failure m" by simp
  then have "r ''success'' = Some (PBool False)" by simp
  with assms(2) show ?thesis by simp
next
  case (db_failed n m w'' cs)
  with assms(1) have "r = failure (''Database error: '' @ m)" by simp
  then have "r ''success'' = Some (PBool False)" by simp
  with assms(2) show ?thesis by simp
next
  case (saved n)
  let ?key = "uuid4_str h (uuid_draws w) @ lower (path_suffix p)"
  let ?row = "inserted_row h p n (uuid4_str h (Suc (uuid_draws w)))
                (PStr (object_url self ?key)) uid"
  note put = upload_to_s3_ok [OF saved(2), of "w\<lparr>uuid_draws := Suc (uuid_draws w)\<rparr>"]
  from upload_document_saved [OF saved, of uid] assms(1)
  have r: "r = [''success'' \<mapsto> PBool True,
          ''document_id'' \<mapsto> PStr (uuid4_str h (Suc (uuid_draws w))),
          ''file_name'' \<mapsto> PStr (path_name p),
          ''s3_url'' \<mapsto> PStr (object_url self ?key),
          ''message'' \<mapsto> PStr ''Document uploaded successfully'']"
    and d: "documents w' = documents w @ [?row]"
    and n: "uuid_draws w' = Suc (Suc (uuid_draws w))"
    by auto
  show ?thesis
    apply (rule exI [of _ "descriptor h p n"])
    apply (rule exI [of _ "[''success'' \<mapsto> PBool True, ''s3_url'' \<mapsto> PStr (object_url self ?key),
                ''s3_key'' \<mapsto> PStr ?key]"])
    apply (intro exI [of _ ?row] exI conjI)
                apply (rule saved(1))
               apply (rule put)
              apply (rule d)
             apply simp
            apply simp
           apply (rule n)
          apply simp
         apply simp
        apply simp
       apply simp
      apply simp
     apply simp
    apply (simp add: r)
    done
qed

theorem successful_upload_record_witness:
  "\<exists>row.
     documents (snd (upload_document sample_uploader sample_config sample_host
       ''syllabus.pdf'' ''user123'' sample_world)) = [row]
   \<and> col_status row = ''uploaded''
   \<and> col_user_id row = ''user123''
   \<and> col_file_name row = PStr ''syllabus.pdf''
   \<and> fst (upload_document sample_uploader sample_config sample_host
       ''syllabus.pdf'' ''user123'' sample_world) =
       Inr [''success'' \<mapsto> PBool True,
            ''document_id'' \<mapsto> PStr (col_document_id row),
            ''file_name'' \<mapsto> col_file_name row,
            ''s3_url'' \<mapsto> col_s3_url row,
            ''message'' \<mapsto> PStr ''Document uploaded successfully'']"
proof -
  have succ: "[''success'' \<mapsto> PBool True,
           ''document_id'' \<mapsto> PStr ''7a9d0e2c-1b3f-4c8d-8e6a-5f4b3c2d1e0f'',
           ''file_name'' \<mapsto> PStr ''syllabus.pdf'',
           ''s3_url'' \<mapsto> PStr ''https://syllabus-documents.s3.us-east-1.amazonaws.com/3f2b8c1e-5d4a-4e6f-9a7b-0c1d2e3f4a5b.pdf'',
           ''message'' \<mapsto> PStr ''Document uploaded successfully''] ''success''
      = Some (PBool True)"
    by simp
  from successful_upload_record [OF sample_run succ] show ?thesis
    unfolding sample_run
    by (elim exE conjE) (auto simp add: sample_world_def)
qed

text \<open>
  C9. Every result of \<open>upload_document\<close> is well-formed: \<open>success = False\<close> with a
  non-empty error text, or \<open>success = True\<close> with non-empty \<open>document_id\<close>,
  \<open>file_name\<close> and \<open>s3_url\<close>. Two facts of the host are used for the success case:
  a UUID text is never empty, and the store accepts a local file only when its path has a
  final component (the paths without one are the directories \<open>/\<close> and \<open>.\<close>).
\<close>

theorem every_outcome_is_well_formed:
  assumes "\<forall>n. uuid4_str h n \<noteq> []"
    and "\<forall>f b k. s3_upload_outcome h f b k = S3Ok \<longrightarrow> path_name f \<noteq> []"
  shows "\<exists>d w'. upload_document self cfg h p uid w = (Inr d, w') \<and>
     ((d ''success'' = Some (PBool False) \<and> (\<exists>m. m \<noteq> [] \<and> d ''error'' = Some (PStr m)))
      \<or> (d ''success'' = Some (PBool True)
          \<and> (\<exists>i f u. i \<noteq> [] \<and> f \<noteq> [] \<and> u \<noteq> []
                \<and> d ''document_id'' = Some (PStr i)
                \<and> d ''file_name'' = Some (PStr f)
                \<and> d ''s3_url'' = Some (PStr u))))"
proof (cases rule: upload_document_cases [of self cfg h p uid w])
  case (rejected m)
  then show ?thesis by auto
next
  case (storage_failed n m)
  then show ?thesis by auto
next
  case (db_failed n m w' cs)
  then show ?thesis by auto
next
  case (saved n)
  from assms(2) saved(2) have name: "path_name p \<noteq> []" by blast
  from assms(1) have id: "uuid4_str h (Suc (uuid_draws w)) \<noteq> []" by blast
  from upload_document_saved [OF saved, of uid] name id show ?thesis by auto
qed

theorem every_outcome_is_well_formed_witness:
  "\<exists>d w'. upload_document sample_uploader sample_config sample_host ''syllabus.pdf''
      ''user123'' sample_world = (Inr d, w')
    \<and> d ''success'' = Some (PBool True)
    \<and> (\<exists>i f u. i \<noteq> [] \<and> f \<noteq> [] \<and> u \<noteq> []
          \<and> d ''document_id'' = Some (PStr i)
          \<and> d ''file_name'' = Some (PStr f)
          \<and> d ''s3_url'' = Some (PStr u))"
  using every_outcome_is_well_formed [OF sample_host_well_behaved,
      of sample_uploader sample_config "''syllabus.pdf''" "''user123''" sample_world]
  by (simp add: sample_run)

end
